theory Spec2Isabelle
  imports Complex_Main "HOL-Library.Signed_Division" "HOL-Library.Sublist" "HOL-Library.Log_Nat"
begin

section \<open>JavaScript values used by the services\<close>

text \<open>
  The services pass request fields around untyped. The fields that the code tests for
  truthiness (\<open>updates.reward\<close>, \<open>updates.postedBy\<close>, \<open>postedBy || "anonymous-agent"\<close>)
  are modelled by \<open>jsval\<close>: the field is absent (\<open>undefined\<close>), a string or an integer
  number. JavaScript's \<open>!==\<close> is equality of these values: a string never equals a number.
\<close>

datatype jsval = Undefined | Str string | Num int

fun truthy :: "jsval \<Rightarrow> bool" where
  "truthy Undefined = False"
| "truthy (Str s) = (s \<noteq> [])"
| "truthy (Num n) = (n \<noteq> 0)"

text \<open>\<open>a || b\<close> on values: the left operand when it is truthy, the right one otherwise.\<close>

definition js_or :: "jsval \<Rightarrow> jsval \<Rightarrow> jsval" where
  "js_or a b = (if truthy a then a else b)"

text \<open>
  Errors thrown by the runtime. \<open>BigInt(undefined)\<close> throws a TypeError, as does reading
  a property of \<open>null\<close>.
\<close>

datatype js_error = TypeError string

text \<open>
  Division of BigInts truncates towards zero; \<open>sdiv\<close> on \<open>int\<close> is that division
  (\<open>div\<close> on \<open>int\<close> rounds down instead).
\<close>

definition bigint_div :: "int \<Rightarrow> int \<Rightarrow> int" where
  "bigint_div a b = a sdiv b"

section \<open>JavaScript Numbers\<close>

text \<open>
  A JavaScript Number is an IEEE 754 binary64 value: NaN, an infinity, or a finite
  rational of the form \<open>m * 2 ^ e\<close> with \<open>\<bar>m\<bar> < 2 ^ 53\<close> and \<open>- 1074 \<le> e\<close>. The model
  carries the finite values as rationals (the two zeros are not told apart: no code here
  can tell them apart) and rounds the exact result of every arithmetic operation to the
  nearest such value, ties to the even significand, as the language requires.

  \<open>binade x\<close> is the exponent \<open>e\<close> with \<open>2 ^ e \<le> \<bar>x\<bar> < 2 ^ (e + 1)\<close>; \<open>ulp x\<close> is the
  distance between neighbouring Numbers around \<open>x\<close> (constant below \<open>2 ^ - 1022\<close>, where
  the Numbers are subnormal); \<open>round64\<close> rounds to a multiple of it and overflows to an
  infinity from \<open>2 ^ 1024\<close> on.
\<close>

datatype number = NaN | PosInf | NegInf | Finite rat

definition binade :: "rat \<Rightarrow> int" where
  "binade x =
     (if 1 \<le> \<bar>x\<bar> then bitlen \<lfloor>\<bar>x\<bar>\<rfloor> - 1 else - bitlen (\<lceil>1 / \<bar>x\<bar>\<rceil> - 1))"

definition ulp :: "rat \<Rightarrow> rat" where
  "ulp x =
     (let e = max (binade x) (- 1022) - 52
      in if 0 \<le> e then 2 ^ nat e else 1 / 2 ^ nat (- e))"

definition round64 :: "rat \<Rightarrow> number" where
  "round64 x =
     (if x = 0 then Finite 0
      else
        (let u = ulp x;
             q = \<lfloor>x / u\<rfloor>;
             f = x / u - of_int q;
             m = (if f < 1 / 2 then q
                  else if 1 / 2 < f then q + 1
                  else if even q then q else q + 1);
             y = of_int m * u
         in if 2 ^ 1024 \<le> \<bar>y\<bar> then (if 0 < y then PosInf else NegInf) else Finite y))"

text \<open>\<open>a >= b\<close> and \<open>a <= b\<close> on Numbers: false as soon as one operand is NaN.\<close>

fun js_ge :: "number \<Rightarrow> number \<Rightarrow> bool" where
  "js_ge (Finite x) (Finite y) = (y \<le> x)"
| "js_ge NaN b = False"
| "js_ge a NaN = False"
| "js_ge PosInf b = True"
| "js_ge a NegInf = True"
| "js_ge a b = False"

definition js_le :: "number \<Rightarrow> number \<Rightarrow> bool" where
  "js_le a b = js_ge b a"

text \<open>\<open>!a\<close> on a Number is true for NaN and for zero.\<close>

fun number_truthy :: "number \<Rightarrow> bool" where
  "number_truthy NaN = False"
| "number_truthy (Finite x) = (x \<noteq> 0)"
| "number_truthy a = True"

fun js_neg :: "number \<Rightarrow> number" where
  "js_neg NaN = NaN"
| "js_neg PosInf = NegInf"
| "js_neg NegInf = PosInf"
| "js_neg (Finite x) = Finite (- x)"

text \<open>\<open>a + b\<close> and \<open>a - b\<close> on Numbers.\<close>

fun js_add :: "number \<Rightarrow> number \<Rightarrow> number" where
  "js_add (Finite x) (Finite y) = round64 (x + y)"
| "js_add NaN b = NaN"
| "js_add a NaN = NaN"
| "js_add PosInf NegInf = NaN"
| "js_add NegInf PosInf = NaN"
| "js_add PosInf b = PosInf"
| "js_add a PosInf = PosInf"
| "js_add NegInf b = NegInf"
| "js_add a NegInf = NegInf"

definition js_sub :: "number \<Rightarrow> number \<Rightarrow> number" where
  "js_sub a b = js_add a (js_neg b)"

section \<open>Treasury: the simulated yield account (treasury.js)\<close>

text \<open>
  \<open>simulatedYield\<close> is one module-level Number of sats, 1420 at start. The model passes it
  through every call. The amounts handed to the functions are Numbers as well.
\<close>

definition initialSimulatedYield :: number where
  "initialSimulatedYield = Finite 1420"

definition getSimulatedYield :: "number \<Rightarrow> number" where
  "getSimulatedYield simulatedYield = simulatedYield"

text \<open>
  \<open>accrueSimulatedYield(amount = null)\<close>: the accrual is \<open>amount\<close>, or
  \<open>Math.floor(Math.random() * 3) + 1\<close> when \<open>amount\<close> is null or undefined. The random
  draw is the parameter \<open>rnd\<close>, one of 0, 1, 2. Returns the new balance, which is also the
  new state.
\<close>

definition accrueSimulatedYield :: "nat \<Rightarrow> number option \<Rightarrow> number \<Rightarrow> number" where
  "accrueSimulatedYield rnd amount simulatedYield =
     (let accrual = (case amount of Some a \<Rightarrow> a | None \<Rightarrow> Finite (of_nat (rnd mod 3) + 1))
      in js_add simulatedYield accrual)"

record spend_result =
  success :: bool
  remaining :: number
  needed :: "number option"

text \<open>\<open>spendSimulatedYield(amount)\<close>: the result object and the new balance.\<close>

definition spendSimulatedYield :: "number \<Rightarrow> number \<Rightarrow> spend_result \<times> number" where
  "spendSimulatedYield amount simulatedYield =
     (if js_ge simulatedYield amount
      then (let simulatedYield' = js_sub simulatedYield amount
            in (\<lparr>success = True, remaining = simulatedYield', needed = None\<rparr>, simulatedYield'))
      else (\<lparr>success = False, remaining = simulatedYield, needed = Some amount\<rparr>, simulatedYield))"

definition resetSimulatedYield :: "number \<Rightarrow> number" where
  "resetSimulatedYield amount = amount"

section \<open>Settlement ledger (ledger.js)\<close>

text \<open>
  The two kinds of entry are objects with different fields. An incoming entry is
  \<open>Incoming txid from amount skillId\<close>, a negotiation entry is
  \<open>Negotiation bountyId oldReward newReward updatedBy\<close>; the constructor stands for the
  \<open>type\<close> field, and only an incoming entry has an \<open>amount\<close>. Amounts are integers of
  the smallest currency unit: the code stores them as decimal strings (\<open>"5000"\<close>,
  \<open>providerAmount.toString()\<close>) and reads them back with \<open>BigInt(...)\<close>, and the model
  keeps the integer such a string denotes.
\<close>

record distribution =
  d_txid :: string
  toAddress :: string
  toName :: string
  d_amount :: int
  d_timestamp :: string

datatype entry_kind =
    Incoming string string int string
  | Negotiation string jsval jsval jsval

record entry =
  entry_id :: int
  kind :: entry_kind
  e_timestamp :: string
  distributions :: "distribution list"

text \<open>\<open>entry.amount\<close>: undefined on a negotiation entry.\<close>

fun entry_amount :: "entry_kind \<Rightarrow> int option" where
  "entry_amount (Incoming t f a s) = Some a"
| "entry_amount (Negotiation b r r' u) = None"

text \<open>\<open>BigInt(v)\<close> of a field that may be undefined.\<close>

fun toBigInt :: "int option \<Rightarrow> js_error + int" where
  "toBigInt None = Inl (TypeError ''Cannot convert undefined to a BigInt'')"
| "toBigInt (Some n) = Inr n"

text \<open>
  \<open>recordIncomingPayment({txid, from, amount, skillId, timestamp})\<close>. The clock
  (\<open>new Date().toISOString()\<close>) is the parameter \<open>now\<close>; \<open>timestamp || now\<close> takes the
  clock when the timestamp is absent or empty. Returns the entry and the new ledger.
\<close>

definition recordIncomingPayment ::
  "string \<Rightarrow> string \<Rightarrow> int \<Rightarrow> string \<Rightarrow> string option \<Rightarrow> string \<Rightarrow> entry list
     \<Rightarrow> entry \<times> entry list" where
  "recordIncomingPayment tx frm amt skill ts now entries =
     (let e = \<lparr>entry_id = int (length entries) + 1,
                kind = Incoming tx frm amt skill,
                e_timestamp = (case ts of Some t \<Rightarrow> (if t \<noteq> [] then t else now) | None \<Rightarrow> now),
                distributions = []\<rparr>
      in (e, entries @ [e]))"

text \<open>
  \<open>recordDistribution({ledgerEntryId, txid, toAddress, toName, amount})\<close>:
  \<open>entries.find\<close> takes the first entry with that id and the distribution is pushed onto
  it; with no such entry nothing is changed. The function returns nothing.
\<close>

fun recordDistribution ::
  "int \<Rightarrow> string \<Rightarrow> string \<Rightarrow> string \<Rightarrow> int \<Rightarrow> string \<Rightarrow> entry list \<Rightarrow> entry list" where
  "recordDistribution ledgerEntryId tx toA toN amt now [] = []"
| "recordDistribution ledgerEntryId tx toA toN amt now (e # es) =
     (if entry_id e = ledgerEntryId
      then e\<lparr>distributions := distributions e @
                [\<lparr>d_txid = tx, toAddress = toA, toName = toN, d_amount = amt,
                  d_timestamp = now\<rparr>]\<rparr> # es
      else e # recordDistribution ledgerEntryId tx toA toN amt now es)"

definition getLedger :: "entry list \<Rightarrow> entry list" where
  "getLedger entries = entries"

text \<open>\<open>recordNegotiation({bountyId, oldReward, newReward, updatedBy})\<close>.\<close>

definition recordNegotiation ::
  "string \<Rightarrow> jsval \<Rightarrow> jsval \<Rightarrow> jsval \<Rightarrow> string \<Rightarrow> entry list \<Rightarrow> entry \<times> entry list" where
  "recordNegotiation bid oldR newR who now entries =
     (let e = \<lparr>entry_id = int (length entries) + 1,
                kind = Negotiation bid oldR newR (js_or who (Str ''anonymous-agent'')),
                e_timestamp = now,
                distributions = []\<rparr>
      in (e, entries @ [e]))"

text \<open>
  \<open>getLedgerSummary()\<close>: the two nested loops, with the running totals as
  accumulators. \<open>BigInt(entry.amount)\<close> throws on an entry without an amount, and the
  exception leaves the function.
\<close>

fun sum_distributions :: "distribution list \<Rightarrow> int \<Rightarrow> int" where
  "sum_distributions [] totalDistributed = totalDistributed"
| "sum_distributions (d # ds) totalDistributed =
     sum_distributions ds (totalDistributed + d_amount d)"

fun summary_loop :: "entry list \<Rightarrow> int \<Rightarrow> int \<Rightarrow> js_error + (int \<times> int)" where
  "summary_loop [] totalIncoming totalDistributed = Inr (totalIncoming, totalDistributed)"
| "summary_loop (e # es) totalIncoming totalDistributed =
     (case toBigInt (entry_amount (kind e)) of
        Inl err \<Rightarrow> Inl err
      | Inr a \<Rightarrow>
          summary_loop es (totalIncoming + a)
            (sum_distributions (distributions e) totalDistributed))"

record ledger_summary =
  totalPayments :: nat
  totalIncomingMicroSTX :: int
  totalDistributedMicroSTX :: int
  platformBalanceMicroSTX :: int
  s_entries :: "entry list"

definition getLedgerSummary :: "entry list \<Rightarrow> js_error + ledger_summary" where
  "getLedgerSummary entries =
     (case summary_loop entries 0 0 of
        Inl err \<Rightarrow> Inl err
      | Inr (totalIncoming, totalDistributed) \<Rightarrow>
          Inr \<lparr>totalPayments = length entries,
               totalIncomingMicroSTX = totalIncoming,
               totalDistributedMicroSTX = totalDistributed,
               platformBalanceMicroSTX = totalIncoming - totalDistributed,
               s_entries = entries\<rparr>)"

text \<open>
  The calls that change the ledger, and a sequence of them run from a ledger. The
  module starts from the empty ledger, or from the ledger an earlier run saved to
  ledger.json. Saving (\<open>saveLedger\<close>) and logging do not change the ledger in memory and
  are left out.
\<close>

datatype ledger_call =
    RecordIncoming string string int string "string option" string
  | RecordDistribution int string string string int string
  | RecordNegotiation string jsval jsval jsval string

fun ledger_step :: "ledger_call \<Rightarrow> entry list \<Rightarrow> entry list" where
  "ledger_step (RecordIncoming tx frm amt skill ts now) es =
     snd (recordIncomingPayment tx frm amt skill ts now es)"
| "ledger_step (RecordDistribution lid tx toA toN amt now) es =
     recordDistribution lid tx toA toN amt now es"
| "ledger_step (RecordNegotiation bid oldR newR who now) es =
     snd (recordNegotiation bid oldR newR who now es)"

fun ledger_run :: "ledger_call list \<Rightarrow> entry list \<Rightarrow> entry list" where
  "ledger_run [] es = es"
| "ledger_run (c # cs) es = ledger_run cs (ledger_step c es)"

section \<open>Revenue distribution (ledger.js, distributeRevenue)\<close>

text \<open>
  The configuration fields the distributor and the gate read (config.js). The fee
  percent and the share percents are integers (\<open>parseInt\<close> of the environment variable,
  the literals of the skill table); \<open>BigInt\<close> of a number that is not an integer throws,
  and such an input is not part of the model.
\<close>

record config =
  platformFeePercent :: int
  platformPrivateKey :: string
  stacksNetwork :: string

record provider =
  name :: string
  address :: string
  sharePercent :: int

text \<open>
  \<open>sendSTX\<close> signs and broadcasts a transfer: an external collaborator. It is a
  parameter of the model: from the state of the outside world \<open>'w\<close> and the request it
  either throws (\<open>Inl\<close> the message) or returns a txid and an explorer URL, and leaves a
  new state of the world. The clock that stamps a recorded distribution reads the world.
\<close>

record send_request =
  recipientAddress :: string
  s_amount :: int
  senderKey :: string
  memo :: string

record send_result =
  r_txid :: string
  r_explorerUrl :: string

type_synonym 'w sender = "'w \<Rightarrow> send_request \<Rightarrow> (string + send_result) \<times> 'w"

text \<open>
  An element of the returned \<open>results\<close> array: \<open>Paid name txid amount explorerUrl\<close> for
  a payout made, \<open>Failed name error amount\<close> for one whose transfer threw.
\<close>

datatype payout =
    Paid string string int string
  | Failed string string int

fun payout_amount :: "payout \<Rightarrow> int" where
  "payout_amount (Paid n t a u) = a"
| "payout_amount (Failed n e a) = a"

definition platformFee :: "config \<Rightarrow> int \<Rightarrow> int" where
  "platformFee cfg totalAmount = bigint_div (totalAmount * platformFeePercent cfg) 100"

definition distributable :: "config \<Rightarrow> int \<Rightarrow> int" where
  "distributable cfg totalAmount = totalAmount - platformFee cfg totalAmount"

definition providerAmount :: "int \<Rightarrow> provider \<Rightarrow> int" where
  "providerAmount distrib p = bigint_div (distrib * sharePercent p) 100"

text \<open>
  The loop over the providers. A provider without address and one whose amount is not
  positive are skipped. A transfer that returns is recorded in the ledger and pushed
  onto the results; one that throws is pushed onto the results only.
\<close>

fun pay_providers ::
  "'w sender \<Rightarrow> ('w \<Rightarrow> string) \<Rightarrow> config \<Rightarrow> int \<Rightarrow> int \<Rightarrow> provider list
     \<Rightarrow> payout list \<Rightarrow> 'w \<Rightarrow> entry list \<Rightarrow> payout list \<times> 'w \<times> entry list" where
  "pay_providers sendSTX clock cfg ledgerEntryId distrib [] results w es = (results, w, es)"
| "pay_providers sendSTX clock cfg ledgerEntryId distrib (p # ps) results w es =
     (if address p = [] then pay_providers sendSTX clock cfg ledgerEntryId distrib ps results w es
      else if providerAmount distrib p \<le> 0
      then pay_providers sendSTX clock cfg ledgerEntryId distrib ps results w es
      else
        (case sendSTX w \<lparr>recipientAddress = address p, s_amount = providerAmount distrib p,
                         senderKey = platformPrivateKey cfg,
                         memo = ''moltmarket:'' @ name p\<rparr> of
           (Inr r, w') \<Rightarrow>
             pay_providers sendSTX clock cfg ledgerEntryId distrib ps
               (results @ [Paid (name p) (r_txid r) (providerAmount distrib p) (r_explorerUrl r)])
               w'
               (recordDistribution ledgerEntryId (r_txid r) (address p) (name p)
                  (providerAmount distrib p) (clock w') es)
         | (Inl err, w') \<Rightarrow>
             pay_providers sendSTX clock cfg ledgerEntryId distrib ps
               (results @ [Failed (name p) err (providerAmount distrib p)]) w' es))"

definition distributeRevenue ::
  "'w sender \<Rightarrow> ('w \<Rightarrow> string) \<Rightarrow> config \<Rightarrow> int \<Rightarrow> int \<Rightarrow> provider list
     \<Rightarrow> 'w \<Rightarrow> entry list \<Rightarrow> payout list \<times> 'w \<times> entry list" where
  "distributeRevenue sendSTX clock cfg ledgerEntryId totalAmount providers w es =
     pay_providers sendSTX clock cfg ledgerEntryId (distributable cfg totalAmount)
       providers [] w es"

section \<open>Payment gate (paymentGate.js)\<close>

text \<open>
  What the middleware writes to the log: the level, the category and the message.
\<close>

datatype log_level = Info | Warn | Error | Success

type_synonym log_line = "log_level \<times> string \<times> string"

text \<open>
  The payment attached to the request as \<open>req.x402\<close>. \<open>explorerUrl\<close> is null and
  \<open>yieldPowered\<close> is set on a yield payment only.
\<close>

record x402 =
  x_txid :: string
  x_amount :: int
  x_asset :: string
  payer :: string
  x_explorerUrl :: "string option"
  yieldPowered :: bool

text \<open>
  \<open>fetch(verifyUrl)\<close> and \<open>verifyRes.json()\<close> are the outside world: the fetch throws or
  returns a response with its \<open>ok\<close> flag, whose body fails to parse, is \<open>null\<close>, or is a
  transaction record \<open>TxData tx_status sender_address\<close>, the sender perhaps missing.
\<close>

datatype json_body =
    JsonThrew string
  | JsonNull
  | TxData string "string option"

datatype fetch_outcome =
    FetchThrew string
  | Response bool json_body

record accepted_asset =
  a_asset :: string
  a_amount :: int

record gate_options =
  price :: int
  g_description :: string
  asset :: string
  acceptedAssets :: "accepted_asset list option"

record request =
  headers :: "string \<rightharpoonup> string"
  req_method :: string
  req_path :: string

text \<open>
  How the middleware ends: it calls \<open>next()\<close> with the payment attached, answers 402
  itself for a multi-asset skill, or hands the request to the x402-stacks middleware
  (an external library, which verifies a \<open>payment-signature\<close> header or answers 402).
\<close>

datatype gate_result =
    Next x402
  | MultiAsset402 "accepted_asset list"
  | BaseMiddleware

text \<open>
  A string that the code tests for truthiness (a header, \<open>sender_address\<close>, the status
  filter) counts when it is present and not the empty string.
\<close>

fun nonempty :: "string option \<Rightarrow> string option" where
  "nonempty None = None"
| "nonempty (Some v) = (if v = [] then None else Some v)"

definition verifyUrl :: "config \<Rightarrow> string \<Rightarrow> string" where
  "verifyUrl cfg directTxid =
     ''https://api.'' @ (if stacksNetwork cfg = ''mainnet'' then [] else ''testnet.'')
       @ ''hiro.so/extended/v1/tx/'' @ directTxid"

definition explorerUrl :: "config \<Rightarrow> string \<Rightarrow> string" where
  "explorerUrl cfg directTxid =
     ''https://explorer.hiro.so/txid/'' @ directTxid @ ''?chain='' @ stacksNetwork cfg"

definition direct_payment :: "config \<Rightarrow> gate_options \<Rightarrow> string \<Rightarrow> string \<Rightarrow> x402" where
  "direct_payment cfg opts directTxid who =
     \<lparr>x_txid = directTxid, x_amount = price opts, x_asset = asset opts, payer = who,
      x_explorerUrl = Some (explorerUrl cfg directTxid), yieldPowered = False\<rparr>"

text \<open>
  The branch for an \<open>x-payment-txid\<close> header: the lookup and its three outcomes. An
  exception anywhere in the \<open>try\<close> block (the fetch, the parse of the body, the read of
  \<open>tx_status\<close> on a null body) ends in the \<open>catch\<close> branch.
\<close>

definition direct_txid_proof ::
  "config \<Rightarrow> (string \<Rightarrow> fetch_outcome) \<Rightarrow> gate_options \<Rightarrow> string
     \<Rightarrow> log_line list \<times> gate_result" where
  "direct_txid_proof cfg fetch opts directTxid =
     (let received = (Info, ''x402'', ''Direct txid proof received: '' @ directTxid);
          caught = (\<lambda>msg.
            ([received,
              (Warn, ''x402'', ''Could not verify txid: '' @ msg @ ''. Accepting anyway.'')],
             Next (direct_payment cfg opts directTxid ''unverified'')))
      in case fetch (verifyUrl cfg directTxid) of
           FetchThrew msg \<Rightarrow> caught msg
         | Response ok body \<Rightarrow>
             if ok then
               (case body of
                  JsonThrew msg \<Rightarrow> caught msg
                | JsonNull \<Rightarrow>
                    caught (''Cannot read properties of null (reading '' @ [CHR 0x27]
                      @ ''tx_status'' @ [CHR 0x27] @ '')'')
                | TxData tx_status sender_address \<Rightarrow>
                    ([received,
                      (Success, ''x402'',
                       ''Payment verified on-chain! Status: '' @ tx_status)],
                     Next (direct_payment cfg opts directTxid
                       (case nonempty sender_address of
                          Some a \<Rightarrow> a | None \<Rightarrow> ''unknown''))))
             else
               ([received,
                 (Warn, ''x402'', ''Txid '' @ directTxid
                    @ '' not found yet (may be pending). Accepting anyway.'')],
                Next (direct_payment cfg opts directTxid ''pending'')))"

text \<open>
  The middleware returned by \<open>paymentGate({price, description, asset, acceptedAssets})\<close>,
  applied to a request.
\<close>

definition paymentGate ::
  "config \<Rightarrow> (string \<Rightarrow> fetch_outcome) \<Rightarrow> gate_options \<Rightarrow> request
     \<Rightarrow> log_line list \<times> gate_result" where
  "paymentGate cfg fetch opts req =
     (case nonempty (headers req ''x-yield-payment'') of
        Some yieldPayment \<Rightarrow>
          ([(Success, ''x402'', ''[YIELD_ENGINE] Yield payment accepted: '' @ yieldPayment)],
           Next \<lparr>x_txid = yieldPayment, x_amount = price opts, x_asset = ''sBTC-yield'',
                 payer = ''yield-engine'', x_explorerUrl = None, yieldPowered = True\<rparr>)
      | None \<Rightarrow>
          (case nonempty (headers req ''x-payment-txid'') of
             Some directTxid \<Rightarrow> direct_txid_proof cfg fetch opts directTxid
           | None \<Rightarrow>
               (case nonempty (headers req ''payment-signature'') of
                  None \<Rightarrow>
                    (let line = (Info, ''x402'', ''No payment header on '' @ req_method req
                                   @ '' '' @ req_path req @ ''. Returning 402.'')
                     in case acceptedAssets opts of
                          Some assets \<Rightarrow>
                            if length assets > 1 then ([line], MultiAsset402 assets)
                            else ([line], BaseMiddleware)
                        | None \<Rightarrow> ([line], BaseMiddleware))
                | Some sig \<Rightarrow>
                    ([(Info, ''x402'', ''Payment header received on '' @ req_method req
                         @ '' '' @ req_path req @ ''. Verifying...'')],
                     BaseMiddleware))))"

text \<open>
  The two routes of api.js that concern a yield payment, as calls on the process: the
  debit \<open>POST /treasury/yield/spend\<close> (which answers 400 to a missing or non-positive
  amount before it calls \<open>spendSimulatedYield\<close>) and the gate of
  \<open>POST /skills/:id/execute\<close>. The state they share is the yield balance.
\<close>

datatype api_call =
    YieldSpend number
  | SkillExecute gate_options request

datatype api_reply =
    InvalidAmount
  | SpendReply spend_result
  | GateReply gate_result

fun api_step ::
  "config \<Rightarrow> (string \<Rightarrow> fetch_outcome) \<Rightarrow> api_call \<Rightarrow> number
     \<Rightarrow> api_reply \<times> number" where
  "api_step cfg fetch (YieldSpend amt) simulatedYield =
     (if \<not> number_truthy amt \<or> js_le amt (Finite 0) then (InvalidAmount, simulatedYield)
      else (case spendSimulatedYield amt simulatedYield of
              (r, simulatedYield') \<Rightarrow> (SpendReply r, simulatedYield')))"
| "api_step cfg fetch (SkillExecute opts req) simulatedYield =
     (GateReply (snd (paymentGate cfg fetch opts req)), simulatedYield)"

fun api_run ::
  "config \<Rightarrow> (string \<Rightarrow> fetch_outcome) \<Rightarrow> api_call list \<Rightarrow> number
     \<Rightarrow> api_reply list \<times> number" where
  "api_run cfg fetch [] simulatedYield = ([], simulatedYield)"
| "api_run cfg fetch (c # cs) simulatedYield =
     (case api_step cfg fetch c simulatedYield of
        (r, simulatedYield') \<Rightarrow>
          (case api_run cfg fetch cs simulatedYield' of
             (rs, simulatedYield'') \<Rightarrow> (r # rs, simulatedYield'')))"

text \<open>A reply that reports a debit of the yield account.\<close>

fun is_debit :: "api_reply \<Rightarrow> bool" where
  "is_debit (SpendReply r) = success r"
| "is_debit InvalidAmount = False"
| "is_debit (GateReply g) = False"

section \<open>Bounty board (skills.js)\<close>

record submission =
  submittedBy :: jsval
  result :: jsval
  submittedAt :: string

record change =
  action :: string
  oldReward :: jsval
  newReward :: jsval
  c_timestamp :: string

text \<open>
  \<open>updatedAt\<close> and \<open>negotiationHistory\<close> do not exist on a bounty until its first update.
\<close>

record bounty =
  b_id :: string
  title :: jsval
  description :: jsval
  reward :: jsval
  postedBy :: jsval
  status :: string
  postedAt :: string
  submissions :: "submission list"
  updatedAt :: "string option"
  negotiationHistory :: "change list option"

text \<open>The decimal digits of a number, for the id \<open>bounty-N\<close>.\<close>

fun decimal :: "nat \<Rightarrow> string" where
  "decimal n =
     (if n < 10 then [char_of (48 + n)]
      else decimal (n div 10) @ [char_of (48 + n mod 10)])"

declare decimal.simps [simp del]

definition postBounty ::
  "jsval \<Rightarrow> jsval \<Rightarrow> jsval \<Rightarrow> jsval \<Rightarrow> string \<Rightarrow> bounty list \<Rightarrow> bounty \<times> bounty list" where
  "postBounty ttl descr rew who now bounties =
     (let b = \<lparr>b_id = ''bounty-'' @ decimal (length bounties + 1),
                title = ttl, description = descr, reward = rew,
                postedBy = js_or who (Str ''anonymous-agent''),
                status = ''open'', postedAt = now, submissions = [],
                updatedAt = None, negotiationHistory = None\<rparr>
      in (b, bounties @ [b]))"

definition listBounties :: "string option \<Rightarrow> bounty list \<Rightarrow> bounty list" where
  "listBounties st bounties =
     (case nonempty st of
        Some s \<Rightarrow> filter (\<lambda>b. status b = s) bounties
      | None \<Rightarrow> bounties)"

definition getBounty :: "string \<Rightarrow> bounty list \<Rightarrow> bounty option" where
  "getBounty bountyId bounties = find (\<lambda>b. b_id b = bountyId) bounties"

text \<open>
  The two functions below find the bounty and change that object in place; in the model
  the first bounty of the list with the id is replaced by the changed one.
\<close>

fun replace_bounty :: "string \<Rightarrow> bounty \<Rightarrow> bounty list \<Rightarrow> bounty list" where
  "replace_bounty bountyId b' [] = []"
| "replace_bounty bountyId b' (b # bs) =
     (if b_id b = bountyId then b' # bs else b # replace_bounty bountyId b' bs)"

datatype submit_result =
    SubmitNull
  | SubmitError string
  | Submitted bounty submission

definition submitBountyWork ::
  "string \<Rightarrow> jsval \<Rightarrow> jsval \<Rightarrow> string \<Rightarrow> bounty list \<Rightarrow> submit_result \<times> bounty list" where
  "submitBountyWork bountyId who res now bounties =
     (case getBounty bountyId bounties of
        None \<Rightarrow> (SubmitNull, bounties)
      | Some b \<Rightarrow>
          if status b \<noteq> ''open'' then (SubmitError ''Bounty is not open'', bounties)
          else
            (let s = \<lparr>submittedBy = who, result = res, submittedAt = now\<rparr>;
                 b' = b\<lparr>submissions := submissions b @ [s], status := ''submitted''\<rparr>
             in (Submitted b' s, replace_bounty bountyId b' bounties)))"

record updates =
  u_reward :: jsval
  u_description :: jsval
  u_postedBy :: jsval

datatype update_result =
    UpdateNull
  | UpdateError string
  | Updated bounty

text \<open>The changes an accepted update makes to the bounty object.\<close>

definition apply_update :: "updates \<Rightarrow> string \<Rightarrow> bounty \<Rightarrow> bounty" where
  "apply_update upd now b =
     (let old = reward b;
          b1 = (if truthy (u_reward upd) then b\<lparr>reward := u_reward upd\<rparr> else b);
          b2 = (if truthy (u_description upd)
                then b1\<lparr>description := u_description upd\<rparr> else b1);
          b3 = b2\<lparr>updatedAt := Some now\<rparr>;
          history = (case negotiationHistory b3 of Some h \<Rightarrow> h | None \<Rightarrow> [])
      in b3\<lparr>negotiationHistory :=
               Some (history @
                 [\<lparr>action = ''reward_updated'', oldReward = old,
                   newReward = js_or (u_reward upd) old,
                   c_timestamp = now\<rparr>])\<rparr>)"

definition updateBounty ::
  "string \<Rightarrow> updates \<Rightarrow> string \<Rightarrow> bounty list \<Rightarrow> update_result \<times> bounty list" where
  "updateBounty bountyId upd now bounties =
     (case find (\<lambda>b. b_id b = bountyId) bounties of
        None \<Rightarrow> (UpdateNull, bounties)
      | Some b \<Rightarrow>
          if status b \<noteq> ''open'' then (UpdateError ''Bounty is not open'', bounties)
          else if truthy (u_postedBy upd) \<and> u_postedBy upd \<noteq> postedBy b
          then (UpdateError ''Only the bounty poster can update the reward'', bounties)
          else
            (let b' = apply_update upd now b
             in (Updated b', replace_bounty bountyId b' bounties)))"

text \<open>The calls that change the board, and a sequence of them run from a board.\<close>

datatype board_call =
    PostBounty jsval jsval jsval jsval string
  | SubmitBountyWork string jsval jsval string
  | UpdateBounty string updates string

fun board_step :: "board_call \<Rightarrow> bounty list \<Rightarrow> bounty list" where
  "board_step (PostBounty ttl descr rew who now) bs = snd (postBounty ttl descr rew who now bs)"
| "board_step (SubmitBountyWork bountyId who res now) bs =
     snd (submitBountyWork bountyId who res now bs)"
| "board_step (UpdateBounty bountyId upd now) bs = snd (updateBounty bountyId upd now bs)"

fun board_run :: "board_call list \<Rightarrow> bounty list \<Rightarrow> bounty list" where
  "board_run [] bs = bs"
| "board_run (c # cs) bs = board_run cs (board_step c bs)"

section \<open>Notions used to state the properties\<close>

text \<open>A Number below zero.\<close>

fun js_negative :: "number \<Rightarrow> bool" where
  "js_negative (Finite x) = (x < 0)"
| "js_negative NegInf = True"
| "js_negative a = False"

text \<open>
  The shares as the specification words them, with the division rounded down: the share
  of a recipient, and the payouts due for a recipient list, in input order, to the
  recipients with an address and a positive share.
\<close>

definition floor_share :: "int \<Rightarrow> provider \<Rightarrow> int" where
  "floor_share distrib p = (distrib * sharePercent p) div 100"

definition shares_due :: "int \<Rightarrow> provider list \<Rightarrow> (string \<times> string \<times> int) list" where
  "shares_due distrib ps =
     map (\<lambda>p. (name p, address p, floor_share distrib p))
       (filter (\<lambda>p. address p \<noteq> [] \<and> 0 < floor_share distrib p) ps)"

text \<open>
  What is compared: the name and amount of a result, the payee and amount of a recorded
  distribution, and the distributions recorded on the entry that \<open>entries.find\<close> returns
  for an id.
\<close>

fun payout_summary :: "payout \<Rightarrow> string \<times> int" where
  "payout_summary (Paid n t a u) = (n, a)"
| "payout_summary (Failed n e a) = (n, a)"

definition distribution_summary :: "distribution \<Rightarrow> string \<times> string \<times> int" where
  "distribution_summary d = (toName d, toAddress d, d_amount d)"

definition recorded :: "int \<Rightarrow> entry list \<Rightarrow> distribution list" where
  "recorded ledgerEntryId es =
     (case find (\<lambda>e. entry_id e = ledgerEntryId) es of
        None \<Rightarrow> [] | Some e \<Rightarrow> distributions e)"

text \<open>
  The transfers of a call, as the amended reading words them: for each payout due, in
  order, the collaborator is called with the payee's address, the share, the platform
  key and the memo, in the state of the world the transfer before it left; an attempt is
  the payout due, what the collaborator answered and the state it left.
\<close>

type_synonym 'w attempt = "(string \<times> string \<times> int) \<times> (string + send_result) \<times> 'w"

fun attempts ::
  "'w sender \<Rightarrow> string \<Rightarrow> 'w \<Rightarrow> (string \<times> string \<times> int) list \<Rightarrow> 'w attempt list" where
  "attempts sendSTX key w [] = []"
| "attempts sendSTX key w ((n, a, x) # due) =
     (case sendSTX w \<lparr>recipientAddress = a, s_amount = x, senderKey = key,
                      memo = ''moltmarket:'' @ n\<rparr> of
        (out, w') \<Rightarrow> ((n, a, x), out, w') # attempts sendSTX key w' due)"

text \<open>
  The result reported for an attempt, the distribution recorded for it (one only when
  the transfer returned, stamped by the clock of the state it left), the state of the
  world after all attempts, and a ledger with distributions appended to the entry that
  \<open>entries.find\<close> returns for the id.
\<close>

fun result_of :: "'w attempt \<Rightarrow> payout" where
  "result_of ((n, a, x), Inr r, w') = Paid n (r_txid r) x (r_explorerUrl r)"
| "result_of ((n, a, x), Inl err, w') = Failed n err x"

fun distribution_of :: "('w \<Rightarrow> string) \<Rightarrow> 'w attempt \<Rightarrow> distribution option" where
  "distribution_of clock ((n, a, x), Inr r, w') =
     Some \<lparr>d_txid = r_txid r, toAddress = a, toName = n, d_amount = x, d_timestamp = clock w'\<rparr>"
| "distribution_of clock ((n, a, x), Inl err, w') = None"

fun world_after :: "'w \<Rightarrow> 'w attempt list \<Rightarrow> 'w" where
  "world_after w [] = w"
| "world_after w ((d, out, w') # rest) = world_after w' rest"

fun append_distributions :: "int \<Rightarrow> distribution list \<Rightarrow> entry list \<Rightarrow> entry list" where
  "append_distributions ledgerEntryId ds [] = []"
| "append_distributions ledgerEntryId ds (e # es) =
     (if entry_id e = ledgerEntryId then e\<lparr>distributions := distributions e @ ds\<rparr> # es
      else e # append_distributions ledgerEntryId ds es)"

text \<open>
  A transfer collaborator that never throws.
\<close>

definition always_succeeds :: "'w sender \<Rightarrow> bool" where
  "always_succeeds sendSTX = (\<forall>w r. \<exists>res. fst (sendSTX w r) = Inr res)"

text \<open>
  The ids of a ledger are 1, 2, ..., n in this order.
\<close>

definition ids_consecutive :: "entry list \<Rightarrow> bool" where
  "ids_consecutive es = (map entry_id es = [1..int (length es)])"

text \<open>
  The id a call assigns (a call that records a distribution assigns none), and the ids
  assigned by a sequence of calls, in order.
\<close>

fun assigned_id :: "ledger_call \<Rightarrow> entry list \<Rightarrow> int option" where
  "assigned_id (RecordIncoming tx frm amt skill ts now) es =
     Some (entry_id (fst (recordIncomingPayment tx frm amt skill ts now es)))"
| "assigned_id (RecordDistribution lid tx toA toN amt now) es = None"
| "assigned_id (RecordNegotiation bid oldR newR who now) es =
     Some (entry_id (fst (recordNegotiation bid oldR newR who now es)))"

fun assigned_ids :: "ledger_call list \<Rightarrow> entry list \<Rightarrow> int list" where
  "assigned_ids [] es = []"
| "assigned_ids (c # cs) es =
     (case assigned_id c es of
        None \<Rightarrow> assigned_ids cs (ledger_step c es)
      | Some i \<Rightarrow> i # assigned_ids cs (ledger_step c es))"

text \<open>
  The amount of an entry that has one.
\<close>

fun incoming_amount :: "entry \<Rightarrow> int" where
  "incoming_amount e = (case entry_amount (kind e) of Some a \<Rightarrow> a | None \<Rightarrow> 0)"

text \<open>
  A bounty is open without a submission, or submitted with exactly one.
\<close>

definition bounty_invariant :: "bounty \<Rightarrow> bool" where
  "bounty_invariant b =
     (status b = ''open'' \<and> submissions b = []
      \<or> status b = ''submitted'' \<and> length (submissions b) = 1)"

section \<open>Example inputs\<close>

text \<open>
  The default configuration (fee 40 percent, testnet), transfer collaborators that
  always succeed and always fail, and the inputs of the scenarios.
\<close>

definition default_config :: config where
  "default_config = \<lparr>platformFeePercent = 40, platformPrivateKey = ''key'', stacksNetwork = ''testnet''\<rparr>"

definition transfers_succeed :: "nat sender" where
  "transfers_succeed w r =
     (Inr \<lparr>r_txid = ''0xabc'', r_explorerUrl = ''https://explorer.hiro.so/txid/0xabc''\<rparr>,
      Suc w)"

definition transfers_fail :: "nat sender" where
  "transfers_fail w r = (Inl ''broadcast failed'', Suc w)"

definition fixed_clock :: "nat \<Rightarrow> string" where
  "fixed_clock w = ''2026-01-01T00:00:00.000Z''"

definition provider_A :: provider where
  "provider_A = \<lparr>name = ''A'', address = ''ST-A'', sharePercent = 50\<rparr>"

definition provider_B :: provider where
  "provider_B = \<lparr>name = ''B'', address = ''ST-B'', sharePercent = 50\<rparr>"

definition provider_A_full :: provider where
  "provider_A_full = \<lparr>name = ''A'', address = ''ST-A'', sharePercent = 100\<rparr>"

definition provider_B_full :: provider where
  "provider_B_full = \<lparr>name = ''B'', address = ''ST-B'', sharePercent = 100\<rparr>"

definition scenario_ledger :: "entry list" where
  "scenario_ledger = snd (recordIncomingPayment ''tx1'' ''ST1'' 5000 ''audit'' None ''2026-01-01T00:00:00.000Z'' [])"

definition example_calls :: "ledger_call list" where
  "example_calls =
     [RecordIncoming ''tx1'' ''ST1'' 5000 ''audit'' None ''2026-01-01T00:00:00.000Z'',
      RecordNegotiation ''bounty-1'' (Str ''5000'') (Str ''8000'') (Str ''agent-a'')
        ''2026-01-01T00:00:01.000Z'',
      RecordDistribution 1 ''0xabc'' ''ST-A'' ''A'' 1500 ''2026-01-01T00:00:02.000Z'']"

definition wallet_auditor_gate :: gate_options where
  "wallet_auditor_gate =
     \<lparr>price = 5000, g_description = ''Wallet Auditor'', asset = ''STX'', acceptedAssets = None\<rparr>"

definition yield_request :: request where
  "yield_request =
     \<lparr>headers = [''x-yield-payment'' \<mapsto> ''yield-payment-1''], req_method = ''POST'',
      req_path = ''/skills/wallet-auditor/execute''\<rparr>"

definition direct_request :: request where
  "direct_request =
     \<lparr>headers = [''x-payment-txid'' \<mapsto> ''0xabc''], req_method = ''POST'',
      req_path = ''/skills/wallet-auditor/execute''\<rparr>"

definition lookup_found :: "string \<Rightarrow> fetch_outcome" where
  "lookup_found url = Response True (TxData ''success'' (Some ''ST1SENDER''))"

definition lookup_not_found :: "string \<Rightarrow> fetch_outcome" where
  "lookup_not_found url = Response False JsonNull"

definition lookup_unreachable :: "string \<Rightarrow> fetch_outcome" where
  "lookup_unreachable url = FetchThrew ''fetch failed''"

definition lookup_found_pending :: "string \<Rightarrow> fetch_outcome" where
  "lookup_found_pending url = Response True (TxData ''success'' (Some ''pending''))"

definition lookup_found_no_sender :: "string \<Rightarrow> fetch_outcome" where
  "lookup_found_no_sender url = Response True (TxData ''success'' None)"

definition board_open :: "bounty list" where
  "board_open =
     snd (postBounty (Str ''Deep Audit'') (Str ''Audit 3 whale wallets'') (Str ''5000'')
            (Str ''agent-a'') ''2026-01-01T00:00:00.000Z'' [])"

definition board_submitted :: "bounty list" where
  "board_submitted =
     snd (submitBountyWork ''bounty-1'' (Str ''agent-b'') (Str ''report'')
            ''2026-01-01T00:00:01.000Z'' board_open)"

section \<open>Properties of Numbers\<close>

lemma ulp_pos: "0 < ulp x"
  by (simp add: ulp_def Let_def)

lemma binade_int:
  assumes "n \<noteq> 0"
  shows "binade (of_int n) = bitlen \<bar>n\<bar> - 1"
proof -
  have a: "\<bar>of_int n :: rat\<bar> = of_int \<bar>n\<bar>" by simp
  have "1 \<le> \<bar>n\<bar>" using assms by simp
  then have "(of_int 1 :: rat) \<le> of_int \<bar>n\<bar>"
    by (simp only: of_int_le_iff)
  then have b: "(1::rat) \<le> of_int \<bar>n\<bar>" by simp
  show ?thesis
    unfolding binade_def a using b by (simp only: if_True floor_of_int)
qed

text \<open>A value that is a multiple of its own ulp and below the overflow bound is a Number.\<close>

lemma round64_exact:
  assumes "x \<noteq> 0" and "x / ulp x = of_int q" and "\<bar>x\<bar> < 2 ^ 1024"
  shows "round64 x = Finite x"
proof -
  have y: "of_int q * ulp x = x"
    using assms(2) ulp_pos [of x] by (simp add: field_simps)
  have n: "\<not> 2 ^ 1024 \<le> \<bar>x\<bar>"
    using assms(3) by simp
  show ?thesis
    unfolding round64_def Let_def assms(2) floor_of_int
    using assms(1) n by (simp add: y)
qed

text \<open>Every integer of absolute value below \<open>2 ^ 53\<close> (a safe integer) is a Number.\<close>

lemma round64_safe_integer:
  assumes "\<bar>n\<bar> < 2 ^ 53"
  shows "round64 (of_int n) = Finite (of_int n)"
proof (cases "n = 0")
  case True
  then show ?thesis by (simp add: round64_def)
next
  case False
  define b where "b = bitlen \<bar>n\<bar>"
  have pos: "0 < \<bar>n\<bar>" using False by simp
  have b1: "1 \<le> b"
    unfolding b_def using pos by (simp add: bitlen_ge_iff_power)
  have b2: "b \<le> 53"
    unfolding b_def using assms by (simp add: bitlen_le_iff_power)
  define k where "k = nat (53 - b)"
  have e: "max (binade (of_int n)) (- 1022) - 52 = - int k"
    using b1 b2 by (simp add: binade_int [OF False] b_def [symmetric] k_def)
  have u: "ulp (of_int n) = 1 / 2 ^ k"
  proof (cases "k = 0")
    case True
    then show ?thesis by (simp add: ulp_def e)
  next
    case False
    then show ?thesis by (simp add: ulp_def e)
  qed
  have d: "(of_int n :: rat) / ulp (of_int n) = of_int (n * 2 ^ k)"
    unfolding u by simp
  have "\<bar>n\<bar> < 2 ^ 1024"
    using assms by (rule less_trans) simp
  then have "(of_int \<bar>n\<bar> :: rat) < of_int (2 ^ 1024)"
    by (simp only: of_int_less_iff)
  then have small: "\<bar>of_int n :: rat\<bar> < 2 ^ 1024"
    by simp
  have nz: "(of_int n :: rat) \<noteq> 0" using False by simp
  show ?thesis
    using nz d small by (rule round64_exact)
qed

text \<open>Rounding keeps the sign.\<close>

lemma round64_nonneg:
  assumes "0 \<le> x"
  shows "round64 x = PosInf \<or> (\<exists>y. round64 x = Finite y \<and> 0 \<le> y)"
proof (cases "x = 0")
  case True
  then show ?thesis by (simp add: round64_def)
next
  case False
  with assms have x: "0 < x" by simp
  define u where "u = ulp x"
  have u: "0 < u" unfolding u_def by (rule ulp_pos)
  define q where "q = \<lfloor>x / u\<rfloor>"
  have q: "0 \<le> q"
    unfolding q_def using x u by simp
  define m where "m = (if x / u - of_int q < 1 / 2 then q
                  else if 1 / 2 < x / u - of_int q then q + 1
                  else if even q then q else q + 1)"
  have m: "0 \<le> m" unfolding m_def using q by simp
  have y: "0 \<le> (of_int m :: rat) * u"
    using m u by simp
  have r: "round64 x = (if 2 ^ 1024 \<le> \<bar>of_int m * u\<bar>
                        then (if 0 < of_int m * u then PosInf else NegInf)
                        else Finite (of_int m * u))"
    using False by (simp add: round64_def Let_def u_def q_def m_def)
  show ?thesis
  proof (cases "2 ^ 1024 \<le> \<bar>of_int m * u\<bar>")
    case True
    then have "0 < of_int m * u" using y by auto
    with True r show ?thesis by simp
  next
    case False
    with r y show ?thesis by simp
  qed
qed

lemma round64_not_negative: "0 \<le> x \<Longrightarrow> \<not> js_negative (round64 x)"
  using round64_nonneg [of x] by auto

text \<open>
  Above \<open>2 ^ 53\<close> only every second integer is a Number: \<open>2 ^ 53 + 2\<close> is one,
  \<open>2 ^ 53 + 1\<close> rounds to \<open>2 ^ 53\<close>. Just below 1 the Numbers are \<open>2 ^ - 53\<close> apart, so
  \<open>1 - 2 ^ - 60\<close> rounds to 1.
\<close>

lemma round64_above_safe:
  "round64 9007199254740993 = Finite 9007199254740992"
  by code_simp

lemma round64_below_one:
  "round64 (1152921504606846975 / 1152921504606846976) = Finite 1"
  by code_simp

lemma spend_safe_integers:
  assumes "\<bar>bal - amount\<bar> < 2 ^ 53"
  shows "js_sub (Finite (of_int bal)) (Finite (of_int amount)) = Finite (of_int (bal - amount))"
proof -
  have "js_sub (Finite (of_int bal)) (Finite (of_int amount)) = round64 (of_int (bal - amount))"
    by (simp add: js_sub_def)
  with round64_safe_integer [OF assms] show ?thesis by simp
qed

section \<open>Properties of the yield account\<close>

text \<open>
  C9, as the code has it. The balance and the amount are JavaScript Numbers. For a
  non-negative integer amount and an integer balance that are both safe integers
  (absolute value below \<open>2 ^ 53\<close>), \<open>spendSimulatedYield\<close> succeeds exactly when the
  balance is at least the amount, and then the new balance and \<open>remaining\<close> are exactly
  balance minus amount; otherwise it reports \<open>success = False\<close>, leaves the balance
  unchanged, reports it as \<open>remaining\<close> and reports \<open>needed = amount\<close>; a non-negative
  balance stays a non-negative safe integer. For arbitrary Numbers it succeeds exactly
  when \<open>simulatedYield >= amount\<close> holds, the new balance and \<open>remaining\<close> are then the
  Number nearest to the difference, a failure leaves the balance unchanged, and a
  non-negative finite balance never becomes negative under a non-negative finite amount.
  From 1420, spending 800 gives \<open>{success: true, remaining: 620}\<close> and spending 800
  again gives \<open>{success: false, remaining: 620, needed: 800}\<close>.
\<close>

theorem spend_yield_contract:
  "0 \<le> amount \<Longrightarrow> amount < 2 ^ 53 \<Longrightarrow> \<bar>bal\<bar> < 2 ^ 53 \<Longrightarrow>
     success (fst (spendSimulatedYield (Finite (of_int amount)) (Finite (of_int bal))))
       = (bal \<ge> amount)
   \<and> (bal \<ge> amount \<longrightarrow>
          spendSimulatedYield (Finite (of_int amount)) (Finite (of_int bal)) =
            (\<lparr>success = True, remaining = Finite (of_int (bal - amount)), needed = None\<rparr>,
             Finite (of_int (bal - amount))))
   \<and> (\<not> bal \<ge> amount \<longrightarrow>
          spendSimulatedYield (Finite (of_int amount)) (Finite (of_int bal)) =
            (\<lparr>success = False, remaining = Finite (of_int bal),
              needed = Some (Finite (of_int amount))\<rparr>,
             Finite (of_int bal)))
   \<and> (0 \<le> bal \<longrightarrow>
          (\<exists>n. snd (spendSimulatedYield (Finite (of_int amount)) (Finite (of_int bal))) =
                 Finite (of_int n) \<and> 0 \<le> n \<and> n < 2 ^ 53))
   \<and> (\<forall>a b. success (fst (spendSimulatedYield a b)) = js_ge b a
          \<and> (js_ge b a \<longrightarrow>
               spendSimulatedYield a b =
                 (\<lparr>success = True, remaining = js_sub b a, needed = None\<rparr>, js_sub b a))
          \<and> (\<not> js_ge b a \<longrightarrow>
               spendSimulatedYield a b =
                 (\<lparr>success = False, remaining = b, needed = Some a\<rparr>, b)))
   \<and> (\<forall>x y. 0 \<le> x \<longrightarrow> 0 \<le> y \<longrightarrow>
          \<not> js_negative (snd (spendSimulatedYield (Finite x) (Finite y))))
   \<and> spendSimulatedYield (Finite 800) initialSimulatedYield =
         (\<lparr>success = True, remaining = Finite 620, needed = None\<rparr>, Finite 620)
   \<and> spendSimulatedYield (Finite 800)
         (snd (spendSimulatedYield (Finite 800) initialSimulatedYield)) =
         (\<lparr>success = False, remaining = Finite 620, needed = Some (Finite 800)\<rparr>, Finite 620)"
proof -
  assume amt: "0 \<le> amount" "amount < 2 ^ 53" and bal: "\<bar>bal\<bar> < 2 ^ 53"
  let ?r = "spendSimulatedYield (Finite (of_int amount)) (Finite (of_int bal))"
  have ge: "js_ge (Finite (of_int bal)) (Finite (of_int amount)) = (amount \<le> bal)"
    by simp
  have s: "success (fst ?r) = (bal \<ge> amount)"
    by (simp add: spendSimulatedYield_def Let_def)
  have ok: "bal \<ge> amount \<longrightarrow> ?r =
            (\<lparr>success = True, remaining = Finite (of_int (bal - amount)), needed = None\<rparr>,
             Finite (of_int (bal - amount)))"
  proof
    assume h: "bal \<ge> amount"
    with amt bal have "\<bar>bal - amount\<bar> < 2 ^ 53" by simp
    then have "js_sub (Finite (of_int bal)) (Finite (of_int amount)) =
        Finite (of_int (bal - amount))"
      by (rule spend_safe_integers)
    with h show "?r =
            (\<lparr>success = True, remaining = Finite (of_int (bal - amount)), needed = None\<rparr>,
             Finite (of_int (bal - amount)))"
      unfolding spendSimulatedYield_def Let_def ge by simp
  qed
  have no: "\<not> bal \<ge> amount \<longrightarrow> ?r =
            (\<lparr>success = False, remaining = Finite (of_int bal),
              needed = Some (Finite (of_int amount))\<rparr>,
             Finite (of_int bal))"
    unfolding spendSimulatedYield_def Let_def ge by simp
  have nn: "0 \<le> bal \<longrightarrow> (\<exists>n. snd ?r = Finite (of_int n) \<and> 0 \<le> n \<and> n < 2 ^ 53)"
  proof
    assume b0: "0 \<le> bal"
    show "\<exists>n. snd ?r = Finite (of_int n) \<and> 0 \<le> n \<and> n < 2 ^ 53"
    proof (cases "bal \<ge> amount")
      case True
      with ok have "snd ?r = Finite (of_int (bal - amount))" by simp
      moreover have "0 \<le> bal - amount" using True by simp
      moreover have "bal - amount < 2 ^ 53" using amt bal by simp
      ultimately show ?thesis by blast
    next
      case False
      with no have "snd ?r = Finite (of_int bal)" by simp
      moreover have "bal < 2 ^ 53" using bal by simp
      ultimately show ?thesis using b0 by blast
    qed
  qed
  have gen: "\<forall>a b. success (fst (spendSimulatedYield a b)) = js_ge b a
          \<and> (js_ge b a \<longrightarrow>
               spendSimulatedYield a b =
                 (\<lparr>success = True, remaining = js_sub b a, needed = None\<rparr>, js_sub b a))
          \<and> (\<not> js_ge b a \<longrightarrow>
               spendSimulatedYield a b =
                 (\<lparr>success = False, remaining = b, needed = Some a\<rparr>, b))"
    by (simp add: spendSimulatedYield_def Let_def)
  have neg: "\<forall>x y. 0 \<le> x \<longrightarrow> 0 \<le> y \<longrightarrow>
          \<not> js_negative (snd (spendSimulatedYield (Finite x) (Finite y)))"
  proof (intro allI impI)
    fix x y :: rat
    assume x: "0 \<le> x" and y: "0 \<le> y"
    show "\<not> js_negative (snd (spendSimulatedYield (Finite x) (Finite y)))"
    proof (cases "x \<le> y")
      case True
      then have "0 \<le> y + - x" by simp
      then have "\<not> js_negative (round64 (y + - x))" by (rule round64_not_negative)
      with True show ?thesis
        by (simp add: spendSimulatedYield_def Let_def js_sub_def)
    next
      case False
      with y show ?thesis
        by (simp add: spendSimulatedYield_def Let_def)
    qed
  qed
  have s1: "spendSimulatedYield (Finite 800) initialSimulatedYield =
         (\<lparr>success = True, remaining = Finite 620, needed = None\<rparr>, Finite 620)"
    using spend_safe_integers [of 1420 800]
    by (simp add: spendSimulatedYield_def initialSimulatedYield_def Let_def)
  have s2: "spendSimulatedYield (Finite 800)
         (snd (spendSimulatedYield (Finite 800) initialSimulatedYield)) =
         (\<lparr>success = False, remaining = Finite 620, needed = Some (Finite 800)\<rparr>, Finite 620)"
    unfolding s1 by (simp add: spendSimulatedYield_def)
  show ?thesis
    by (intro conjI) (fact s ok no nn gen neg s1 s2)+
qed

theorem spend_yield_contract_witness:
  "(0::int) \<le> 800 \<and> (800::int) < 2 ^ 53 \<and> \<bar>1420::int\<bar> < 2 ^ 53 \<and> (1420::int) \<ge> 800
   \<and> spendSimulatedYield (Finite 800) (Finite 1420) =
        (\<lparr>success = True, remaining = Finite 620, needed = None\<rparr>, Finite 620)
   \<and> js_ge (Finite 1420) (Finite 800)
   \<and> \<not> js_negative (snd (spendSimulatedYield (Finite 800) (Finite 1420)))"
proof -
  note t = spend_yield_contract [of 800 1420]
  have p: "(0::int) \<le> 800" "(800::int) < 2 ^ 53" "\<bar>1420::int\<bar> < 2 ^ 53" "(1420::int) \<ge> 800"
    by simp_all
  from t [OF p(1) p(2) p(3)]
  have "(1420::int) \<ge> 800 \<longrightarrow>
          spendSimulatedYield (Finite (of_int 800)) (Finite (of_int 1420)) =
            (\<lparr>success = True, remaining = Finite (of_int (1420 - 800)), needed = None\<rparr>,
             Finite (of_int (1420 - 800)))"
    by (elim conjE) assumption
  then have e: "spendSimulatedYield (Finite 800) (Finite 1420) =
        (\<lparr>success = True, remaining = Finite 620, needed = None\<rparr>, Finite 620)"
    by simp
  have g: "js_ge (Finite 1420) (Finite 800)" by simp
  have n: "\<not> js_negative (snd (spendSimulatedYield (Finite 800) (Finite 1420)))"
    unfolding e by simp
  show ?thesis
    by (intro conjI) (fact p e g n)+
qed

text \<open>
  The claim as first stated fails outside the safe integers. With the balance
  \<open>2 ^ 53 + 2 = 9007199254740994\<close> (a Number) \<open>spend(1)\<close> succeeds and leaves
  \<open>2 ^ 53 = 9007199254740992\<close>, which is not the balance minus the amount. With the
  balance 1 and the amount \<open>2 ^ - 60\<close> (a Number, non-negative) \<open>spend\<close> succeeds and
  the balance is still 1.
\<close>

theorem spend_yield_counterexample:
  "round64 9007199254740994 = Finite 9007199254740994
   \<and> spendSimulatedYield (Finite 1) (Finite 9007199254740994) =
        (\<lparr>success = True, remaining = Finite 9007199254740992, needed = None\<rparr>,
         Finite 9007199254740992)
   \<and> (9007199254740994 - 1 :: rat) \<noteq> 9007199254740992
   \<and> round64 (1 / 2 ^ 60) = Finite (1 / 2 ^ 60)
   \<and> spendSimulatedYield (Finite (1 / 2 ^ 60)) (Finite 1) =
        (\<lparr>success = True, remaining = Finite 1, needed = None\<rparr>, Finite 1)
   \<and> (1 - 1 / 2 ^ 60 :: rat) \<noteq> 1"
proof -
  have a: "round64 9007199254740994 = Finite 9007199254740994"
    by code_simp
  have b: "spendSimulatedYield (Finite 1) (Finite 9007199254740994) =
        (\<lparr>success = True, remaining = Finite 9007199254740992, needed = None\<rparr>,
         Finite 9007199254740992)"
    by (simp add: spendSimulatedYield_def js_sub_def Let_def round64_above_safe)
  have c: "(9007199254740994 - 1 :: rat) \<noteq> 9007199254740992"
    by simp
  have d: "round64 (1 / 2 ^ 60) = Finite (1 / 2 ^ 60)"
    by code_simp
  have e: "spendSimulatedYield (Finite (1 / 2 ^ 60)) (Finite 1) =
        (\<lparr>success = True, remaining = Finite 1, needed = None\<rparr>, Finite 1)"
    by (simp add: spendSimulatedYield_def js_sub_def Let_def round64_below_one)
  have f: "(1 - 1 / 2 ^ 60 :: rat) \<noteq> 1"
    by simp
  show ?thesis
    by (intro conjI) (fact a b c d e f)+
qed

section \<open>Properties of the ledger\<close>

lemma recordDistribution_ids:
  "map entry_id (recordDistribution lid tx a n amt now es) = map entry_id es"
  by (induction es) auto

lemma recordDistribution_length:
  "length (recordDistribution lid tx a n amt now es) = length es"
  by (induction es) auto

lemma upto_snoc: "[1..int n + 1] = [1..int n] @ [int n + 1]"
  using upto_rec2 [of 1 "int n + 1"] by simp

lemma ids_consecutive_snoc:
  assumes "ids_consecutive es" and "entry_id e = int (length es) + 1"
  shows "ids_consecutive (es @ [e])"
proof -
  have "int (length (es @ [e])) = int (length es) + 1" by simp
  then have "[1..int (length (es @ [e]))] = [1..int (length es)] @ [int (length es) + 1]"
    by (simp only: upto_snoc)
  then show ?thesis
    using assms by (simp add: ids_consecutive_def)
qed

lemma ids_consecutive_step:
  assumes "ids_consecutive es"
  shows "ids_consecutive (ledger_step c es)"
proof (cases c)
  case (RecordIncoming tx frm amt skill ts now)
  show ?thesis
    unfolding RecordIncoming using assms
    by (simp add: recordIncomingPayment_def Let_def ids_consecutive_snoc)
next
  case (RecordDistribution lid tx toA toN amt now)
  show ?thesis
    unfolding RecordDistribution using assms
    by (simp add: ids_consecutive_def recordDistribution_ids recordDistribution_length)
next
  case (RecordNegotiation bid oldR newR who now)
  show ?thesis
    unfolding RecordNegotiation using assms
    by (simp add: recordNegotiation_def Let_def ids_consecutive_snoc)
qed

lemma ids_consecutive_run: "ids_consecutive es \<Longrightarrow> ids_consecutive (ledger_run cs es)"
  by (induction cs arbitrary: es) (simp_all add: ids_consecutive_step)

lemma ids_consecutive_max:
  assumes "ids_consecutive es"
  shows "Max (insert 0 (set (map entry_id es))) = int (length es)"
proof -
  have "set (map entry_id es) = {1..int (length es)}"
    using assms by (simp add: ids_consecutive_def)
  then have "insert 0 (set (map entry_id es)) = {0..int (length es)}"
    by auto
  then have "Max (insert 0 (set (map entry_id es))) = Max {0..int (length es)}"
    by simp
  also have "\<dots> = int (length es)"
    by (rule Max_eqI) simp_all
  finally show ?thesis .
qed

lemma example_ids: "map entry_id (ledger_run example_calls []) = [1, 2]"
  by (simp add: example_calls_def recordIncomingPayment_def recordNegotiation_def Let_def)

text \<open>
  C10. When no entry has the id \<open>ledgerEntryId\<close>, \<open>recordDistribution\<close> returns
  normally (it has no error result) and the ledger it leaves is the ledger it found:
  no entry is changed and no distribution is recorded anywhere.
\<close>

theorem missing_entry:
  "find (\<lambda>e. entry_id e = ledgerEntryId) es = None \<Longrightarrow>
     recordDistribution ledgerEntryId tx toA toN amt now es = es"
  by (induction es) (auto split: if_splits)

theorem missing_entry_witness:
  "find (\<lambda>e. entry_id e = 7) scenario_ledger = None
   \<and> recordDistribution 7 ''0xabc'' ''ST-A'' ''A'' 1500 ''2026-01-01T00:00:00.000Z''
        scenario_ledger = scenario_ledger"
proof -
  have h: "find (\<lambda>e. entry_id e = 7) scenario_ledger = None"
    by (simp add: scenario_ledger_def recordIncomingPayment_def Let_def)
  show ?thesis
    using missing_entry [OF h] h by simp
qed

lemma ledger_run_ids:
  "map entry_id (ledger_run cs es) = map entry_id es @ assigned_ids cs es"
proof (induction cs arbitrary: es)
  case Nil
  show ?case by simp
next
  case (Cons c cs)
  show ?case
  proof (cases c)
    case (RecordIncoming tx frm amt skill ts now)
    then show ?thesis
      using Cons.IH [of "ledger_step c es"]
      by (simp add: recordIncomingPayment_def Let_def)
  next
    case (RecordDistribution lid tx toA toN amt now)
    then show ?thesis
      using Cons.IH [of "ledger_step c es"]
      by (simp add: recordDistribution_ids)
  next
    case (RecordNegotiation bid oldR newR who now)
    then show ?thesis
      using Cons.IH [of "ledger_step c es"]
      by (simp add: recordNegotiation_def Let_def)
  qed
qed

lemma ledger_step_length: "length es \<le> length (ledger_step c es)"
  by (cases c)
     (simp_all add: recordIncomingPayment_def recordNegotiation_def Let_def
        recordDistribution_length)

lemma ledger_run_length: "length es \<le> length (ledger_run cs es)"
proof (induction cs arbitrary: es)
  case Nil
  show ?case by simp
next
  case (Cons c cs)
  have "length es \<le> length (ledger_step c es)"
    by (rule ledger_step_length)
  also have "\<dots> \<le> length (ledger_run cs (ledger_step c es))"
    by (rule Cons.IH)
  finally show ?case by simp
qed

lemma upto_from_one_split:
  assumes "m \<le> n"
  shows "[1..int n] = [1..int m] @ [int m + 1..int n]"
proof (cases "m = 0")
  case True
  then show ?thesis by simp
next
  case False
  then have "(1::int) \<le> int m" by simp
  moreover have "int m \<le> int n" using assms by simp
  ultimately show ?thesis by (rule upto_split2)
qed

lemma assigned_ids_consecutive:
  assumes "ids_consecutive es0"
  shows "assigned_ids cs es0 = [int (length es0) + 1..int (length (ledger_run cs es0))]"
proof -
  have "map entry_id (ledger_run cs es0) = [1..int (length (ledger_run cs es0))]"
    using ids_consecutive_run [OF assms, of cs] by (simp add: ids_consecutive_def)
  also have "\<dots> = [1..int (length es0)] @ [int (length es0) + 1..int (length (ledger_run cs es0))]"
    using ledger_run_length by (rule upto_from_one_split)
  finally have "map entry_id es0 @ assigned_ids cs es0 =
      [1..int (length es0)] @ [int (length es0) + 1..int (length (ledger_run cs es0))]"
    by (simp add: ledger_run_ids)
  moreover have "map entry_id es0 = [1..int (length es0)]"
    using assms by (simp add: ids_consecutive_def)
  ultimately show ?thesis by simp
qed

text \<open>
  C6. In every ledger reached by any sequence of \<open>recordIncomingPayment\<close>,
  \<open>recordNegotiation\<close> and \<open>recordDistribution\<close> calls from a ledger whose ids are
  1, 2, ..., n (the empty ledger is one, and so is every ledger an earlier run saved),
  the ids are again 1, 2, ..., n in order: strictly increasing, distinct and at least 1.
  The next \<open>recordIncomingPayment\<close> or \<open>recordNegotiation\<close> assigns the id
  \<open>entries.length + 1\<close>, which is the current maximum plus one (the maximum of an empty
  ledger being 0), greater than every id in use and so not one of them, and it appends
  the entry it returns to the ledger, so that the next call sees the id as used. The
  ids that the calls of the sequence assign are, in order, the consecutive numbers after
  the length of the ledger they started from: strictly increasing, distinct, at least
  1, none of them an id of the starting ledger, and together with those ids they are the
  ids of the ledger reached.
\<close>

theorem ledger_ids:
  assumes "ids_consecutive es0"
  shows
    "(let es = ledger_run cs es0;
          ids = map entry_id es;
          currentMax = Max (insert 0 (set ids));
          r1 = recordIncomingPayment tx frm amt skill ts now es;
          r2 = recordNegotiation bid oldR newR who now es;
          e1 = fst r1;
          e2 = fst r2;
          assigned = assigned_ids cs es0
      in entry_id e1 = currentMax + 1 \<and> entry_id e2 = currentMax + 1
       \<and> snd r1 = es @ [e1] \<and> snd r2 = es @ [e2]
       \<and> ledger_run (cs @ [RecordIncoming tx frm amt skill ts now]) es0 = es @ [e1]
       \<and> ledger_run (cs @ [RecordNegotiation bid oldR newR who now]) es0 = es @ [e2]
       \<and> entry_id e1 \<notin> set ids \<and> entry_id e2 \<notin> set ids
       \<and> (\<forall>i \<in> set ids. i < entry_id e1 \<and> i < entry_id e2)
       \<and> ids = [1..int (length es)]
       \<and> sorted_wrt (<) ids \<and> distinct ids \<and> (\<forall>i \<in> set ids. 1 \<le> i)
       \<and> ids = map entry_id es0 @ assigned
       \<and> assigned = [int (length es0) + 1..int (length es)]
       \<and> sorted_wrt (<) assigned \<and> distinct assigned
       \<and> (\<forall>i \<in> set assigned. 1 \<le> i \<and> i \<notin> set (map entry_id es0)))
     \<and> ids_consecutive []"
proof -
  define es where "es = ledger_run cs es0"
  have c: "ids_consecutive es"
    unfolding es_def using assms by (rule ids_consecutive_run)
  then have ids: "map entry_id es = [1..int (length es)]"
    by (simp add: ids_consecutive_def)
  have ids0: "map entry_id es0 = [1..int (length es0)]"
    using assms by (simp add: ids_consecutive_def)
  have m: "Max (insert 0 (set (map entry_id es))) = int (length es)"
    using c by (rule ids_consecutive_max)
  have s: "sorted_wrt (<) (map entry_id es)"
    unfolding ids by (simp add: sorted_wrt_upto)
  have d: "distinct (map entry_id es)"
    unfolding ids by simp
  have e: "ids_consecutive []"
    by (simp add: ids_consecutive_def)
  have a: "assigned_ids cs es0 = [int (length es0) + 1..int (length es)]"
    unfolding es_def using assms by (rule assigned_ids_consecutive)
  have r: "map entry_id es = map entry_id es0 @ assigned_ids cs es0"
    unfolding es_def by (rule ledger_run_ids)
  have sa: "sorted_wrt (<) (assigned_ids cs es0)"
    unfolding a by (simp add: sorted_wrt_upto)
  have da: "distinct (assigned_ids cs es0)"
    unfolding a by simp
  have na: "\<forall>i \<in> set (assigned_ids cs es0). 1 \<le> i \<and> i \<notin> set (map entry_id es0)"
    unfolding a ids0 by auto
  have run: "ledger_run (cs @ [x]) es0 = ledger_step x es" for x
    unfolding es_def by (induction cs arbitrary: es0) simp_all
  show ?thesis
    unfolding Let_def es_def[symmetric]
    using m s d ids e a r sa da na
    by (auto simp add: run recordIncomingPayment_def recordNegotiation_def Let_def)
qed

theorem ledger_ids_witness:
  "ids_consecutive []
   \<and> map entry_id (ledger_run example_calls []) = [1, 2]
   \<and> assigned_ids example_calls [] = [1, 2]
   \<and> entry_id (fst (recordIncomingPayment ''tx2'' ''ST1'' 3000 ''intel'' None
        ''2026-01-01T00:00:03.000Z'' (ledger_run example_calls []))) = 3
   \<and> 3 \<notin> set (map entry_id (ledger_run example_calls []))
   \<and> map entry_id (ledger_run
         (example_calls @ [RecordIncoming ''tx2'' ''ST1'' 3000 ''intel'' None
            ''2026-01-01T00:00:03.000Z'']) []) = [1, 2, 3]"
proof -
  let ?es = "ledger_run example_calls []"
  let ?e = "fst (recordIncomingPayment ''tx2'' ''ST1'' 3000 ''intel'' None
              ''2026-01-01T00:00:03.000Z'' ?es)"
  have e: "ids_consecutive []"
    by (simp add: ids_consecutive_def)
  note t = ledger_ids [OF e, where cs = example_calls and tx = "''tx2''" and frm = "''ST1''"
      and amt = 3000 and skill = "''intel''" and ts = None
      and now = "''2026-01-01T00:00:03.000Z''" and bid = "''bounty-1''"
      and oldR = Undefined and newR = Undefined and who = Undefined, unfolded Let_def]
  from t have a: "entry_id ?e = Max (insert 0 (set (map entry_id ?es))) + 1"
    by (elim conjE) assumption
  from t have b: "\<forall>i \<in> set (map entry_id ?es). i < entry_id ?e"
    by (elim conjE) blast
  from t have c: "ledger_run (example_calls @ [RecordIncoming ''tx2'' ''ST1'' 3000 ''intel'' None
            ''2026-01-01T00:00:03.000Z'']) [] = ?es @ [?e]"
    by (elim conjE) assumption
  have "Max (insert 0 (set (map entry_id ?es))) = 2"
    unfolding example_ids by simp
  with a have f: "entry_id ?e = 3" by simp
  have g: "map entry_id (ledger_run (example_calls @ [RecordIncoming ''tx2'' ''ST1'' 3000
            ''intel'' None ''2026-01-01T00:00:03.000Z'']) []) = [1, 2, 3]"
    unfolding c using f example_ids by simp
  have h: "assigned_ids example_calls [] = [1, 2]"
    by (simp add: example_calls_def recordIncomingPayment_def recordNegotiation_def Let_def)
  have n: "3 \<notin> set (map entry_id ?es)"
    using b f by force
  show ?thesis
    by (intro conjI) (fact e example_ids h f n g)+
qed

lemma sum_distributions_eq:
  "sum_distributions ds totalDistributed = totalDistributed + sum_list (map d_amount ds)"
  by (induction ds arbitrary: totalDistributed) simp_all

lemma summary_loop_incoming:
  "\<forall>e\<in>set es. entry_amount (kind e) \<noteq> None \<Longrightarrow>
     summary_loop es totalIncoming totalDistributed =
       Inr (totalIncoming + sum_list (map incoming_amount es),
            totalDistributed + sum_list (map d_amount (concat (map distributions es))))"
  by (induction es arbitrary: totalIncoming totalDistributed)
     (auto simp: sum_distributions_eq)

text \<open>
  On a ledger whose entries all have an amount (no negotiation entry), the summary is
  the number of entries, the sum of the amounts, the sum of all distribution amounts and
  their difference.
\<close>

lemma summary_of_incoming_ledger:
  "\<forall>e\<in>set es. entry_amount (kind e) \<noteq> None \<Longrightarrow>
     getLedgerSummary es =
       Inr \<lparr>totalPayments = length es,
            totalIncomingMicroSTX = sum_list (map incoming_amount es),
            totalDistributedMicroSTX = sum_list (map d_amount (concat (map distributions es))),
            platformBalanceMicroSTX =
              sum_list (map incoming_amount es)
                - sum_list (map d_amount (concat (map distributions es))),
            s_entries = es\<rparr>"
  by (simp add: getLedgerSummary_def summary_loop_incoming)

text \<open>
  C3. The summary of a ledger that holds a negotiation entry is not returned:
  \<open>recordNegotiation\<close> stores an entry without \<open>amount\<close>, and \<open>getLedgerSummary\<close>
  converts \<open>entry.amount\<close> of every entry with \<open>BigInt\<close>, which throws a TypeError on
  \<open>undefined\<close>. After one \<open>recordNegotiation\<close> on the empty ledger the call fails.
\<close>

theorem summary_fails_after_negotiation:
  "getLedgerSummary (ledger_run
     [RecordNegotiation ''bounty-1'' (Str ''5000'') (Str ''8000'') (Str ''agent-a'')
        ''2026-01-01T00:00:00.000Z''] []) =
   Inl (TypeError ''Cannot convert undefined to a BigInt'')"
  by (simp add: getLedgerSummary_def recordNegotiation_def Let_def)

section \<open>Properties of the revenue distribution\<close>

lemma bigint_div_nonneg: "0 \<le> x \<Longrightarrow> bigint_div x 100 = x div 100"
  by (cases "x = 0") (simp_all add: bigint_div_def signed_divide_int_def)

lemma bigint_div_neg: "x < 0 \<Longrightarrow> bigint_div x 100 \<le> 0"
  by (simp add: bigint_div_def signed_divide_int_def)

lemma providerAmount_skip: "(providerAmount distrib p \<le> 0) = (\<not> 0 < floor_share distrib p)"
proof (cases "0 \<le> distrib * sharePercent p")
  case True
  then show ?thesis
    by (simp add: providerAmount_def floor_share_def bigint_div_nonneg not_less)
next
  case False
  then have neg: "distrib * sharePercent p < 0" by simp
  then have "(distrib * sharePercent p) div 100 < 0" by simp
  with bigint_div_neg [OF neg] show ?thesis
    by (simp add: providerAmount_def floor_share_def)
qed

lemma providerAmount_floor: "0 < floor_share distrib p \<Longrightarrow> providerAmount distrib p = floor_share distrib p"
proof -
  assume a: "0 < floor_share distrib p"
  have "0 \<le> distrib * sharePercent p"
  proof (rule ccontr)
    assume "\<not> 0 \<le> distrib * sharePercent p"
    then have "(distrib * sharePercent p) div 100 < 0" by simp
    with a show False by (simp add: floor_share_def)
  qed
  then show ?thesis
    by (simp add: providerAmount_def floor_share_def bigint_div_nonneg)
qed

lemma pay_providers_results:
  "map payout_summary (fst (pay_providers sendSTX clock cfg lid distrib ps results w es)) =
     map payout_summary results @ map (\<lambda>(n, a, x). (n, x)) (shares_due distrib ps)"
proof (induction ps arbitrary: results w es)
  case Nil
  then show ?case by (simp add: shares_due_def)
next
  case (Cons p ps)
  show ?case
  proof (cases "address p \<noteq> [] \<and> 0 < floor_share distrib p")
    case False
    then have "shares_due distrib (p # ps) = shares_due distrib ps"
      by (auto simp: shares_due_def)
    with False Cons.IH show ?thesis
      by (auto simp: providerAmount_skip)
  next
    case True
    then have s: "shares_due distrib (p # ps) = (name p, address p, floor_share distrib p) # shares_due distrib ps"
      by (simp add: shares_due_def)
    from True have a: "providerAmount distrib p = floor_share distrib p" "\<not> providerAmount distrib p \<le> 0"
      by (simp_all add: providerAmount_floor providerAmount_skip)
    show ?thesis
      using True a s Cons.IH
      by (auto split: prod.splits sum.splits)
  qed
qed

lemma recorded_recordDistribution:
  "recorded lid (recordDistribution lid tx toA toN amt now es) =
     (if find (\<lambda>e. entry_id e = lid) es = None then []
      else recorded lid es @
        [\<lparr>d_txid = tx, toAddress = toA, toName = toN, d_amount = amt, d_timestamp = now\<rparr>])"
  by (induction es) (auto simp: recorded_def)

lemma find_recordDistribution:
  "(find (\<lambda>e. entry_id e = lid) (recordDistribution lid' tx toA toN amt now es) = None) =
   (find (\<lambda>e. entry_id e = lid) es = None)"
  by (induction es) auto

lemma recorded_none: "find (\<lambda>e. entry_id e = lid) es = None \<Longrightarrow> recorded lid es = []"
  by (simp add: recorded_def)

lemma recorded_other:
  "lid' \<noteq> lid \<Longrightarrow>
     recorded lid' (recordDistribution lid tx toA toN amt now es) = recorded lid' es"
  by (induction es) (auto simp: recorded_def)

lemma pay_providers_other:
  "lid' \<noteq> lid \<Longrightarrow>
     recorded lid' (snd (snd (pay_providers sendSTX clock cfg lid distrib ps results w es))) =
       recorded lid' es"
  by (induction ps arbitrary: results w es)
     (auto simp: recorded_other split: prod.splits sum.splits)

lemma pay_providers_recorded:
  "\<exists>new. recorded lid (snd (snd (pay_providers sendSTX clock cfg lid distrib ps results w es))) =
            recorded lid es @ new
        \<and> subseq (map distribution_summary new) (shares_due distrib ps)"
proof (induction ps arbitrary: results w es)
  case Nil
  then show ?case by (simp add: shares_due_def)
next
  case (Cons p ps)
  show ?case
  proof (cases "address p \<noteq> [] \<and> 0 < floor_share distrib p")
    case False
    then have "shares_due distrib (p # ps) = shares_due distrib ps"
      by (auto simp: shares_due_def)
    with False Cons.IH [of results w es] show ?thesis
      by (auto simp: providerAmount_skip)
  next
    case True
    then have s: "shares_due distrib (p # ps) = (name p, address p, floor_share distrib p) # shares_due distrib ps"
      by (simp add: shares_due_def)
    from True have a: "providerAmount distrib p = floor_share distrib p" "\<not> providerAmount distrib p \<le> 0"
      and b: "address p \<noteq> []"
      by (simp_all add: providerAmount_floor providerAmount_skip)
    let ?req = "\<lparr>recipientAddress = address p, s_amount = providerAmount distrib p,
                  senderKey = platformPrivateKey cfg, memo = ''moltmarket:'' @ name p\<rparr>"
    obtain out w' where o: "sendSTX w ?req = (out, w')"
      by (cases "sendSTX w ?req")
    show ?thesis
    proof (cases out)
      case (Inl err)
      let ?rs = "results @ [Failed (name p) err (providerAmount distrib p)]"
      from Cons.IH [of ?rs w' es] obtain new where
        n: "recorded lid (snd (snd (pay_providers sendSTX clock cfg lid distrib ps ?rs w' es))) =
              recorded lid es @ new"
        and e: "subseq (map distribution_summary new) (shares_due distrib ps)"
        by blast
      from e have "subseq (map distribution_summary new) (shares_due distrib (p # ps))"
        unfolding s by (rule list_emb_Cons)
      with n show ?thesis
        using o Inl a b by auto
    next
      case (Inr r)
      let ?rs = "results @ [Paid (name p) (r_txid r) (providerAmount distrib p) (r_explorerUrl r)]"
      let ?es = "recordDistribution lid (r_txid r) (address p) (name p)
                   (providerAmount distrib p) (clock w') es"
      from Cons.IH [of ?rs w' ?es] obtain new where
        n: "recorded lid (snd (snd (pay_providers sendSTX clock cfg lid distrib ps ?rs w' ?es))) =
              recorded lid ?es @ new"
        and e: "subseq (map distribution_summary new) (shares_due distrib ps)"
        by blast
      have run: "pay_providers sendSTX clock cfg lid distrib (p # ps) results w es =
                 pay_providers sendSTX clock cfg lid distrib ps ?rs w' ?es"
        using o Inr a b by simp
      show ?thesis
      proof (cases "find (\<lambda>e. entry_id e = lid) es = None")
        case True
        then have "recorded lid ?es = recorded lid es"
          by (simp add: recorded_recordDistribution recorded_none)
        moreover from e have "subseq (map distribution_summary new) (shares_due distrib (p # ps))"
          unfolding s by (rule list_emb_Cons)
        ultimately show ?thesis
          using n run by auto
      next
        case False
        let ?d = "\<lparr>d_txid = r_txid r, toAddress = address p, toName = name p,
                    d_amount = providerAmount distrib p, d_timestamp = clock w'\<rparr>"
        from False have "recorded lid ?es = recorded lid es @ [?d]"
          by (simp add: recorded_recordDistribution)
        with n have "recorded lid (snd (snd (pay_providers sendSTX clock cfg lid distrib (p # ps) results w es))) =
              recorded lid es @ (?d # new)"
          using run by simp
        moreover have "subseq (map distribution_summary (?d # new)) (shares_due distrib (p # ps))"
          unfolding s using e a by (simp add: distribution_summary_def)
        ultimately show ?thesis by blast
      qed
    qed
  qed
qed

lemma pay_providers_all_paid:
  assumes "always_succeeds sendSTX"
  shows "find (\<lambda>e. entry_id e = lid) es \<noteq> None \<Longrightarrow>
         map distribution_summary
           (recorded lid (snd (snd (pay_providers sendSTX clock cfg lid distrib ps results w es)))) =
         map distribution_summary (recorded lid es) @ shares_due distrib ps"
proof (induction ps arbitrary: results w es)
  case Nil
  then show ?case by (simp add: shares_due_def)
next
  case (Cons p ps)
  show ?case
  proof (cases "address p \<noteq> [] \<and> 0 < floor_share distrib p")
    case False
    then have "shares_due distrib (p # ps) = shares_due distrib ps"
      by (auto simp: shares_due_def)
    with False Cons.IH [OF Cons.prems, of results w] show ?thesis
      by (auto simp: providerAmount_skip)
  next
    case True
    then have s: "shares_due distrib (p # ps) = (name p, address p, floor_share distrib p) # shares_due distrib ps"
      by (simp add: shares_due_def)
    from True have a: "providerAmount distrib p = floor_share distrib p" "\<not> providerAmount distrib p \<le> 0"
      and b: "address p \<noteq> []"
      by (simp_all add: providerAmount_floor providerAmount_skip)
    let ?req = "\<lparr>recipientAddress = address p, s_amount = providerAmount distrib p,
                  senderKey = platformPrivateKey cfg, memo = ''moltmarket:'' @ name p\<rparr>"
    from assms obtain r where "fst (sendSTX w ?req) = Inr r"
      unfolding always_succeeds_def by blast
    then obtain w' where o: "sendSTX w ?req = (Inr r, w')"
      by (cases "sendSTX w ?req") simp
    let ?rs = "results @ [Paid (name p) (r_txid r) (providerAmount distrib p) (r_explorerUrl r)]"
    let ?es = "recordDistribution lid (r_txid r) (address p) (name p)
                 (providerAmount distrib p) (clock w') es"
    have run: "pay_providers sendSTX clock cfg lid distrib (p # ps) results w es =
               pay_providers sendSTX clock cfg lid distrib ps ?rs w' ?es"
      using o a b by simp
    have f: "find (\<lambda>e. entry_id e = lid) ?es \<noteq> None"
      using Cons.prems by (simp add: find_recordDistribution)
    have "map distribution_summary (recorded lid ?es) =
          map distribution_summary (recorded lid es) @ [(name p, address p, floor_share distrib p)]"
      using Cons.prems a by (simp add: recorded_recordDistribution distribution_summary_def)
    with Cons.IH [OF f, of ?rs w'] show ?thesis
      unfolding run s by simp
  qed
qed

lemma shares_due_positive: "x \<in> set (shares_due distrib ps) \<Longrightarrow> 0 < snd (snd x)"
  by (auto simp: shares_due_def)

lemma shares_due_sum:
  assumes "0 \<le> distrib"
  shows "\<forall>p\<in>set ps. 0 \<le> sharePercent p \<Longrightarrow>
         100 * sum_list (map (\<lambda>x. snd (snd x)) (shares_due distrib ps))
           \<le> distrib * sum_list (map sharePercent ps)"
proof (induction ps)
  case Nil
  then show ?case by (simp add: shares_due_def)
next
  case (Cons p ps)
  then have ih: "100 * sum_list (map (\<lambda>x. snd (snd x)) (shares_due distrib ps))
                   \<le> distrib * sum_list (map sharePercent ps)"
    by simp
  from Cons.prems have sp: "0 \<le> sharePercent p" by simp
  have fl: "100 * floor_share distrib p \<le> distrib * sharePercent p"
    unfolding floor_share_def
    using div_mult_mod_eq [of "distrib * sharePercent p" 100]
      pos_mod_sign [of 100 "distrib * sharePercent p"] by linarith
  have nn: "0 \<le> distrib * sharePercent p"
    using assms sp by simp
  show ?case
  proof (cases "address p \<noteq> [] \<and> 0 < floor_share distrib p")
    case True
    then have "shares_due distrib (p # ps) = (name p, address p, floor_share distrib p) # shares_due distrib ps"
      by (simp add: shares_due_def)
    then show ?thesis
      using ih fl by (simp add: algebra_simps)
  next
    case False
    then have "shares_due distrib (p # ps) = shares_due distrib ps"
      by (auto simp: shares_due_def)
    then show ?thesis
      using ih nn by (simp add: algebra_simps)
  qed
qed

lemma subseq_sum_le:
  "subseq xs ys \<Longrightarrow> \<forall>y\<in>set ys. (0::int) \<le> f y \<Longrightarrow>
     sum_list (map f xs) \<le> sum_list (map f ys) \<and> 0 \<le> sum_list (map f xs)"
proof (induction rule: list_emb.induct)
  case (list_emb_Nil ys)
  then show ?case by (auto intro!: sum_list_nonneg)
next
  case (list_emb_Cons xs ys y)
  then show ?case by fastforce
next
  case (list_emb_Cons2 x y xs ys)
  then show ?case by fastforce
qed

lemma payout_amount_summary: "payout_amount r = snd (payout_summary r)"
  by (cases r) simp_all

lemma platformFee_floor:
  "0 \<le> totalAmount \<Longrightarrow> 0 \<le> platformFeePercent cfg \<Longrightarrow>
     platformFee cfg totalAmount = (totalAmount * platformFeePercent cfg) div 100"
  by (simp add: platformFee_def bigint_div_nonneg)

lemma platformFee_bounds:
  assumes "0 \<le> totalAmount" "0 \<le> platformFeePercent cfg" "platformFeePercent cfg \<le> 100"
  shows "0 \<le> platformFee cfg totalAmount \<and> platformFee cfg totalAmount \<le> totalAmount"
proof -
  have f: "platformFee cfg totalAmount = (totalAmount * platformFeePercent cfg) div 100"
    using assms by (simp add: platformFee_floor)
  have "totalAmount * platformFeePercent cfg \<le> totalAmount * 100"
    using assms by (simp add: mult_left_mono)
  then have "(totalAmount * platformFeePercent cfg) div 100 \<le> (totalAmount * 100) div 100"
    by (rule zdiv_mono1) simp
  moreover have "0 \<le> (totalAmount * platformFeePercent cfg) div 100"
    using assms by (simp add: pos_imp_zdiv_nonneg_iff)
  ultimately show ?thesis
    using f by simp
qed

lemma always_succeeds_fixture: "always_succeeds transfers_succeed"
  by (simp add: always_succeeds_def transfers_succeed_def)

lemma scenario_fee: "platformFee default_config 5000 = 2000 \<and> distributable default_config 5000 = 3000"
  by (simp add: platformFee_def distributable_def default_config_def bigint_div_nonneg)

lemma scenario_shares:
  "shares_due 3000 [provider_A, provider_B] = [(''A'', ''ST-A'', 1500), (''B'', ''ST-B'', 1500)]"
  by (simp add: shares_due_def floor_share_def provider_A_def provider_B_def)

lemma scenario_found: "find (\<lambda>e. entry_id e = 1) scenario_ledger \<noteq> None"
  by (simp add: scenario_ledger_def recordIncomingPayment_def Let_def)

lemma scenario_recorded: "recorded 1 scenario_ledger = []"
  by (simp add: scenario_ledger_def recordIncomingPayment_def recorded_def Let_def)

lemma append_distributions_nil: "append_distributions lid [] es = es"
  by (induction es) simp_all

lemma recordDistribution_append:
  "recordDistribution lid tx toA toN amt now es =
     append_distributions lid
       [\<lparr>d_txid = tx, toAddress = toA, toName = toN, d_amount = amt, d_timestamp = now\<rparr>] es"
  by (induction es) simp_all

lemma append_distributions_twice:
  "append_distributions lid ds' (append_distributions lid ds es) =
     append_distributions lid (ds @ ds') es"
  by (induction es) simp_all

lemma pay_providers_exact:
  "pay_providers sendSTX clock cfg lid distrib ps results w es =
     (results @ map result_of
                  (attempts sendSTX (platformPrivateKey cfg) w (shares_due distrib ps)),
      world_after w (attempts sendSTX (platformPrivateKey cfg) w (shares_due distrib ps)),
      append_distributions lid
        (List.map_filter (distribution_of clock)
           (attempts sendSTX (platformPrivateKey cfg) w (shares_due distrib ps))) es)"
proof (induction ps arbitrary: results w es)
  case Nil
  show ?case
    by (simp add: shares_due_def List.map_filter_simps append_distributions_nil)
next
  case (Cons p ps)
  show ?case
  proof (cases "address p \<noteq> [] \<and> 0 < floor_share distrib p")
    case False
    then have "shares_due distrib (p # ps) = shares_due distrib ps"
      by (auto simp: shares_due_def)
    with False Cons.IH [of results w es] show ?thesis
      by (auto simp: providerAmount_skip)
  next
    case True
    then have s: "shares_due distrib (p # ps) =
        (name p, address p, floor_share distrib p) # shares_due distrib ps"
      by (simp add: shares_due_def)
    from True have a: "providerAmount distrib p = floor_share distrib p"
        "\<not> providerAmount distrib p \<le> 0"
      and b: "address p \<noteq> []"
      by (simp_all add: providerAmount_floor providerAmount_skip)
    let ?req = "\<lparr>recipientAddress = address p, s_amount = floor_share distrib p,
                  senderKey = platformPrivateKey cfg, memo = ''moltmarket:'' @ name p\<rparr>"
    obtain out w' where o: "sendSTX w ?req = (out, w')"
      by (cases "sendSTX w ?req")
    let ?rest = "attempts sendSTX (platformPrivateKey cfg) w' (shares_due distrib ps)"
    have att: "attempts sendSTX (platformPrivateKey cfg) w (shares_due distrib (p # ps)) =
        ((name p, address p, floor_share distrib p), out, w') # ?rest"
      unfolding s using o by simp
    show ?thesis
    proof (cases out)
      case (Inl err)
      have "pay_providers sendSTX clock cfg lid distrib (p # ps) results w es =
            pay_providers sendSTX clock cfg lid distrib ps
              (results @ [Failed (name p) err (floor_share distrib p)]) w' es"
        using o Inl a b by simp
      then show ?thesis
        unfolding att Inl
        using Cons.IH [of "results @ [Failed (name p) err (floor_share distrib p)]" w' es]
        by (simp add: List.map_filter_simps)
    next
      case (Inr r)
      let ?es = "recordDistribution lid (r_txid r) (address p) (name p)
                   (floor_share distrib p) (clock w') es"
      have "pay_providers sendSTX clock cfg lid distrib (p # ps) results w es =
            pay_providers sendSTX clock cfg lid distrib ps
              (results @ [Paid (name p) (r_txid r) (floor_share distrib p) (r_explorerUrl r)])
              w' ?es"
        using o Inr a b by simp
      then show ?thesis
        unfolding att Inr
        using Cons.IH [of "results @ [Paid (name p) (r_txid r) (floor_share distrib p)
                             (r_explorerUrl r)]" w' ?es]
        by (simp add: List.map_filter_simps recordDistribution_append
              append_distributions_twice)
    qed
  qed
qed

text \<open>
  C1, as the code has it. For every total amount and fee percent that are not
  negative, the fee is the product divided by 100 and rounded down, and the
  distributable amount is the total minus the fee. For every recipient list, the share
  of a recipient is \<open>floor (distributable * sharePercent / 100)\<close>, and the call does
  exactly this: for the recipients with an address and a positive share, in input
  order, it asks the collaborator to transfer the share to the address; it returns one
  result for each of them, \<open>Paid\<close> with the collaborator's txid when the transfer
  returned and \<open>Failed\<close> with the error when it threw, each with the share as amount;
  and it appends to the entry one distribution for each transfer that returned, and
  none for one that threw (nor for a recipient without address or with a share that is
  not positive). So the distributions recorded are, in order, among the payouts due,
  and they are all of them when every transfer succeeds and the entry exists. With
  5000, 40 percent and A and B at 50 percent each: fee 2000, distributable 3000, payouts
  of 1500 due to A and to B, and, when the transfers succeed, recorded distributions
  of 1500 to A and to B, 3000 in sum.
\<close>

theorem distribute_revenue_shares:
  assumes "0 \<le> totalAmount" and "0 \<le> platformFeePercent cfg"
  shows
    "platformFee cfg totalAmount = (totalAmount * platformFeePercent cfg) div 100
   \<and> distributable cfg totalAmount = totalAmount - platformFee cfg totalAmount
   \<and> distributeRevenue sendSTX clock cfg lid totalAmount providers w es =
       (map result_of
          (attempts sendSTX (platformPrivateKey cfg) w
             (shares_due (distributable cfg totalAmount) providers)),
        world_after w
          (attempts sendSTX (platformPrivateKey cfg) w
             (shares_due (distributable cfg totalAmount) providers)),
        append_distributions lid
          (List.map_filter (distribution_of clock)
             (attempts sendSTX (platformPrivateKey cfg) w
                (shares_due (distributable cfg totalAmount) providers))) es)
   \<and> (case distributeRevenue sendSTX clock cfg lid totalAmount providers w es of
        (results, w', es') \<Rightarrow>
          map payout_summary results =
            map (\<lambda>(n, a, x). (n, x)) (shares_due (distributable cfg totalAmount) providers)
        \<and> (\<exists>new. recorded lid es' = recorded lid es @ new
               \<and> subseq (map distribution_summary new)
                    (shares_due (distributable cfg totalAmount) providers))
        \<and> (always_succeeds sendSTX \<and> find (\<lambda>e. entry_id e = lid) es \<noteq> None \<longrightarrow>
              map distribution_summary (recorded lid es') =
                map distribution_summary (recorded lid es)
                  @ shares_due (distributable cfg totalAmount) providers))
   \<and> platformFee default_config 5000 = 2000
   \<and> distributable default_config 5000 = 3000
   \<and> shares_due 3000 [provider_A, provider_B] =
        [(''A'', ''ST-A'', 1500), (''B'', ''ST-B'', 1500)]
   \<and> (case distributeRevenue sendSTX clock default_config 1 5000 [provider_A, provider_B]
             w scenario_ledger of
        (results, w', es') \<Rightarrow>
          map payout_summary results = [(''A'', 1500), (''B'', 1500)]
        \<and> (always_succeeds sendSTX \<longrightarrow>
              map distribution_summary (recorded 1 es') =
                [(''A'', ''ST-A'', 1500), (''B'', ''ST-B'', 1500)]
            \<and> sum_list (map d_amount (recorded 1 es')) = 3000))"
proof -
  have fee: "platformFee cfg totalAmount = (totalAmount * platformFeePercent cfg) div 100"
    using assms by (rule platformFee_floor)
  have distrib: "distributable cfg totalAmount = totalAmount - platformFee cfg totalAmount"
    by (simp add: distributable_def)
  have exact: "distributeRevenue sendSTX clock cfg lid totalAmount providers w es =
       (map result_of
          (attempts sendSTX (platformPrivateKey cfg) w
             (shares_due (distributable cfg totalAmount) providers)),
        world_after w
          (attempts sendSTX (platformPrivateKey cfg) w
             (shares_due (distributable cfg totalAmount) providers)),
        append_distributions lid
          (List.map_filter (distribution_of clock)
             (attempts sendSTX (platformPrivateKey cfg) w
                (shares_due (distributable cfg totalAmount) providers))) es)"
    unfolding distributeRevenue_def
    using pay_providers_exact [of sendSTX clock cfg lid "distributable cfg totalAmount"
        providers "[]" w es]
    by simp
  have general: "case distributeRevenue sendSTX clock cfg lid totalAmount providers w es of
        (results, w', es') \<Rightarrow>
          map payout_summary results =
            map (\<lambda>(n, a, x). (n, x)) (shares_due (distributable cfg totalAmount) providers)
        \<and> (\<exists>new. recorded lid es' = recorded lid es @ new
               \<and> subseq (map distribution_summary new)
                    (shares_due (distributable cfg totalAmount) providers))
        \<and> (always_succeeds sendSTX \<and> find (\<lambda>e. entry_id e = lid) es \<noteq> None \<longrightarrow>
              map distribution_summary (recorded lid es') =
                map distribution_summary (recorded lid es)
                  @ shares_due (distributable cfg totalAmount) providers)"
  proof -
    let ?d = "distributable cfg totalAmount"
    obtain results w' es' where r: "pay_providers sendSTX clock cfg lid ?d providers [] w es
         = (results, w', es')"
      by (cases "pay_providers sendSTX clock cfg lid ?d providers [] w es") auto
    have a: "map payout_summary results = map (\<lambda>(n, a, x). (n, x)) (shares_due ?d providers)"
      using pay_providers_results [of sendSTX clock cfg lid ?d providers "[]" w es] r by simp
    have b: "\<exists>new. recorded lid es' = recorded lid es @ new
               \<and> subseq (map distribution_summary new) (shares_due ?d providers)"
      using pay_providers_recorded [of lid sendSTX clock cfg ?d providers "[]" w es] r by simp
    have c: "map distribution_summary (recorded lid es') =
                map distribution_summary (recorded lid es) @ shares_due ?d providers"
      if "always_succeeds sendSTX" and "find (\<lambda>e. entry_id e = lid) es \<noteq> None"
      using pay_providers_all_paid [OF that, of clock cfg ?d providers "[]" w] r by simp
    show ?thesis
      unfolding distributeRevenue_def r using a b c by simp
  qed
  have scen: "case distributeRevenue sendSTX clock default_config 1 5000 [provider_A, provider_B]
             w scenario_ledger of
        (results, w', es') \<Rightarrow>
          map payout_summary results = [(''A'', 1500), (''B'', 1500)]
        \<and> (always_succeeds sendSTX \<longrightarrow>
              map distribution_summary (recorded 1 es') =
                [(''A'', ''ST-A'', 1500), (''B'', ''ST-B'', 1500)]
            \<and> sum_list (map d_amount (recorded 1 es')) = 3000)"
  proof -
    obtain results w' es' where r: "distributeRevenue sendSTX clock default_config 1 5000
        [provider_A, provider_B] w scenario_ledger = (results, w', es')"
      by (cases "distributeRevenue sendSTX clock default_config 1 5000
        [provider_A, provider_B] w scenario_ledger") auto
    have d: "distributable default_config 5000 = 3000"
      using scenario_fee by simp
    have a: "map payout_summary results = [(''A'', 1500), (''B'', 1500)]"
      using pay_providers_results [of sendSTX clock default_config 1 3000
          "[provider_A, provider_B]" "[]" w scenario_ledger] r
      by (simp add: distributeRevenue_def d scenario_shares)
    have b: "map distribution_summary (recorded 1 es') =
                [(''A'', ''ST-A'', 1500), (''B'', ''ST-B'', 1500)]" if "always_succeeds sendSTX"
      using pay_providers_all_paid [OF that scenario_found, of clock default_config 3000
          "[provider_A, provider_B]" "[]" w] r
      by (simp add: distributeRevenue_def d scenario_shares scenario_recorded)
    have c: "sum_list (map d_amount (recorded 1 es')) = 3000" if "always_succeeds sendSTX"
    proof -
      have "map d_amount (recorded 1 es') = map (\<lambda>x. snd (snd x)) (map distribution_summary (recorded 1 es'))"
        by (simp add: distribution_summary_def comp_def)
      also have "\<dots> = [1500, 1500]"
        using b [OF that] by simp
      finally show ?thesis by simp
    qed
    show ?thesis
      unfolding r using a b c by simp
  qed
  have sf: "platformFee default_config 5000 = 2000" "distributable default_config 5000 = 3000"
    using scenario_fee by simp_all
  show ?thesis
    by (intro conjI) (fact fee distrib exact general sf scenario_shares scen)+
qed

theorem distribute_revenue_shares_witness:
  "(0::int) \<le> 5000 \<and> 0 \<le> platformFeePercent default_config
   \<and> always_succeeds transfers_succeed
   \<and> find (\<lambda>e. entry_id e = 1) scenario_ledger \<noteq> None
   \<and> platformFee default_config 5000 = (5000 * 40) div 100
   \<and> distributeRevenue transfers_succeed fixed_clock default_config 1 5000
        [provider_A, provider_B] 0 scenario_ledger =
      ([Paid ''A'' ''0xabc'' 1500 ''https://explorer.hiro.so/txid/0xabc'',
        Paid ''B'' ''0xabc'' 1500 ''https://explorer.hiro.so/txid/0xabc''],
       2,
       [\<lparr>entry_id = 1, kind = Incoming ''tx1'' ''ST1'' 5000 ''audit'',
         e_timestamp = ''2026-01-01T00:00:00.000Z'',
         distributions =
           [\<lparr>d_txid = ''0xabc'', toAddress = ''ST-A'', toName = ''A'', d_amount = 1500,
             d_timestamp = ''2026-01-01T00:00:00.000Z''\<rparr>,
            \<lparr>d_txid = ''0xabc'', toAddress = ''ST-B'', toName = ''B'', d_amount = 1500,
             d_timestamp = ''2026-01-01T00:00:00.000Z''\<rparr>]\<rparr>])
   \<and> map distribution_summary
        (recorded 1 (snd (snd (distributeRevenue transfers_succeed fixed_clock default_config 1
           5000 [provider_A, provider_B] 0 scenario_ledger)))) =
      [(''A'', ''ST-A'', 1500), (''B'', ''ST-B'', 1500)]"
proof -
  have h1: "(0::int) \<le> 5000" by simp
  have h2: "0 \<le> platformFeePercent default_config" by (simp add: default_config_def)
  note t = distribute_revenue_shares [OF h1 h2, where sendSTX = transfers_succeed
      and clock = fixed_clock and lid = 1 and providers = "[provider_A, provider_B]"
      and w = 0 and es = scenario_ledger]
  have d: "distributable default_config 5000 = 3000"
    using scenario_fee by simp
  have f: "platformFee default_config 5000 = (5000 * 40) div 100"
    using t by (simp add: default_config_def)
  from t have e: "distributeRevenue transfers_succeed fixed_clock default_config 1 5000
        [provider_A, provider_B] 0 scenario_ledger =
       (map result_of
          (attempts transfers_succeed (platformPrivateKey default_config) 0
             (shares_due (distributable default_config 5000) [provider_A, provider_B])),
        world_after 0
          (attempts transfers_succeed (platformPrivateKey default_config) 0
             (shares_due (distributable default_config 5000) [provider_A, provider_B])),
        append_distributions 1
          (List.map_filter (distribution_of fixed_clock)
             (attempts transfers_succeed (platformPrivateKey default_config) 0
                (shares_due (distributable default_config 5000) [provider_A, provider_B])))
          scenario_ledger)"
    by (elim conjE) assumption
  have x: "distributeRevenue transfers_succeed fixed_clock default_config 1 5000
        [provider_A, provider_B] 0 scenario_ledger =
      ([Paid ''A'' ''0xabc'' 1500 ''https://explorer.hiro.so/txid/0xabc'',
        Paid ''B'' ''0xabc'' 1500 ''https://explorer.hiro.so/txid/0xabc''],
       2,
       [\<lparr>entry_id = 1, kind = Incoming ''tx1'' ''ST1'' 5000 ''audit'',
         e_timestamp = ''2026-01-01T00:00:00.000Z'',
         distributions =
           [\<lparr>d_txid = ''0xabc'', toAddress = ''ST-A'', toName = ''A'', d_amount = 1500,
             d_timestamp = ''2026-01-01T00:00:00.000Z''\<rparr>,
            \<lparr>d_txid = ''0xabc'', toAddress = ''ST-B'', toName = ''B'', d_amount = 1500,
             d_timestamp = ''2026-01-01T00:00:00.000Z''\<rparr>]\<rparr>])"
    unfolding e d scenario_shares
    by (simp add: transfers_succeed_def fixed_clock_def scenario_ledger_def
          recordIncomingPayment_def Let_def List.map_filter_simps)
  have y: "map distribution_summary
        (recorded 1 (snd (snd (distributeRevenue transfers_succeed fixed_clock default_config 1
           5000 [provider_A, provider_B] 0 scenario_ledger)))) =
      [(''A'', ''ST-A'', 1500), (''B'', ''ST-B'', 1500)]"
    unfolding x by (simp add: recorded_def distribution_summary_def)
  show ?thesis
    by (intro conjI) (fact h1 h2 always_succeeds_fixture scenario_found f x y)+
qed

text \<open>
  The claim as first stated fails in two places. With a fee percent of -5 and a total
  of 10 the code computes the fee 0, since the BigInt division truncates towards zero,
  where rounding down gives -1. And when the transfers throw, the scenario's payouts of
  1500 each are attempted and reported as failed, and the ledger is left as it was:
  nothing is recorded.
\<close>

theorem distribute_revenue_counterexample:
  "platformFee (default_config\<lparr>platformFeePercent := - 5\<rparr>) 10 = 0
   \<and> (10 * platformFeePercent (default_config\<lparr>platformFeePercent := - 5\<rparr>)) div 100 = - 1
   \<and> distributeRevenue transfers_fail fixed_clock default_config 1 5000
        [provider_A, provider_B] 0 scenario_ledger =
      ([Failed ''A'' ''broadcast failed'' 1500, Failed ''B'' ''broadcast failed'' 1500],
       2, scenario_ledger)
   \<and> recorded 1 scenario_ledger = []"
  by (simp add: platformFee_def distributable_def default_config_def bigint_div_def
        signed_divide_int_def distributeRevenue_def providerAmount_def provider_A_def
        provider_B_def transfers_fail_def scenario_recorded)

text \<open>
  C2, as the code has it. For a total that is not negative, a fee percent from 0 to
  100 and recipients whose share percents are each from 0 to 100 and together at most
  100: the distributions the call records on the entry are appended to those it found,
  no other entry changes, and the sum recorded is at most the sum of the payouts
  attempted, which is at most the distributable amount, which is at most the total; the
  fee is not negative, so recorded sum, fee and a remainder that is not negative add up
  to the total.
\<close>

theorem distribution_sum_bounded:
  assumes "0 \<le> totalAmount"
    and "0 \<le> platformFeePercent cfg" and "platformFeePercent cfg \<le> 100"
    and "\<forall>p\<in>set providers. 0 \<le> sharePercent p \<and> sharePercent p \<le> 100"
    and "sum_list (map sharePercent providers) \<le> 100"
  shows
    "case distributeRevenue sendSTX clock cfg lid totalAmount providers w es of
       (results, w', es') \<Rightarrow>
         (let new = drop (length (recorded lid es)) (recorded lid es');
              paid = sum_list (map d_amount new);
              fee = platformFee cfg totalAmount;
              distrib = distributable cfg totalAmount
          in recorded lid es' = recorded lid es @ new
           \<and> (\<forall>lid'. lid' \<noteq> lid \<longrightarrow> recorded lid' es' = recorded lid' es)
           \<and> 0 \<le> paid \<and> paid \<le> sum_list (map payout_amount results)
           \<and> sum_list (map payout_amount results) \<le> distrib
           \<and> distrib \<le> totalAmount \<and> 0 \<le> fee
           \<and> paid + fee + (distrib - paid) = totalAmount \<and> 0 \<le> distrib - paid)"
proof -
  let ?d = "distributable cfg totalAmount"
  let ?due = "shares_due ?d providers"
  obtain results w' es' where r: "pay_providers sendSTX clock cfg lid ?d providers [] w es
       = (results, w', es')"
    by (cases "pay_providers sendSTX clock cfg lid ?d providers [] w es") auto
  have fee: "0 \<le> platformFee cfg totalAmount \<and> platformFee cfg totalAmount \<le> totalAmount"
    using assms(1-3) by (rule platformFee_bounds)
  then have d: "0 \<le> ?d" "?d \<le> totalAmount"
    by (simp_all add: distributable_def)
  obtain new where n: "recorded lid es' = recorded lid es @ new"
    and s: "subseq (map distribution_summary new) ?due"
    using pay_providers_recorded [of lid sendSTX clock cfg ?d providers "[]" w es] r by auto
  have new: "drop (length (recorded lid es)) (recorded lid es') = new"
    using n by simp
  have other: "\<forall>lid'. lid' \<noteq> lid \<longrightarrow> recorded lid' es' = recorded lid' es"
    using pay_providers_other [of _ lid sendSTX clock cfg ?d providers "[]" w es] r by simp
  have pos: "\<forall>y\<in>set ?due. 0 \<le> snd (snd y)"
    using shares_due_positive [of _ ?d providers] by fastforce
  have da: "map (\<lambda>x. snd (snd x)) (map distribution_summary new) = map d_amount new"
    by (simp add: distribution_summary_def comp_def)
  have paid: "sum_list (map d_amount new) \<le> sum_list (map (\<lambda>x. snd (snd x)) ?due)"
      "0 \<le> sum_list (map d_amount new)"
    using subseq_sum_le [OF s pos] unfolding da by simp_all
  have "map payout_amount results = map snd (map payout_summary results)"
    by (simp add: payout_amount_summary comp_def)
  also have "\<dots> = map (\<lambda>x. snd (snd x)) ?due"
    using pay_providers_results [of sendSTX clock cfg lid ?d providers "[]" w es] r
    by (simp add: split_beta comp_def)
  finally have res: "sum_list (map payout_amount results) = sum_list (map (\<lambda>x. snd (snd x)) ?due)"
    by simp
  have "100 * sum_list (map (\<lambda>x. snd (snd x)) ?due) \<le> ?d * sum_list (map sharePercent providers)"
    using shares_due_sum [OF d(1)] assms(4) by simp
  also have "\<dots> \<le> ?d * 100"
    using d(1) assms(5) by (rule mult_left_mono [rotated])
  finally have due: "sum_list (map (\<lambda>x. snd (snd x)) ?due) \<le> ?d"
    by simp
  have tot: "platformFee cfg totalAmount + ?d = totalAmount"
    by (simp add: distributable_def)
  show ?thesis
    unfolding distributeRevenue_def r
    using n new other paid res due d fee tot by (simp add: Let_def)
qed

theorem distribution_sum_bounded_witness:
  "(0::int) \<le> 5000
   \<and> 0 \<le> platformFeePercent default_config \<and> platformFeePercent default_config \<le> 100
   \<and> 0 \<le> sharePercent provider_A \<and> sharePercent provider_A \<le> 100
   \<and> 0 \<le> sharePercent provider_B \<and> sharePercent provider_B \<le> 100
   \<and> sum_list (map sharePercent [provider_A, provider_B]) \<le> 100
   \<and> sum_list (map payout_amount
        (fst (distributeRevenue transfers_succeed fixed_clock default_config 1 5000
           [provider_A, provider_B] 0 scenario_ledger)))
        \<le> distributable default_config 5000
   \<and> distributable default_config 5000 \<le> 5000"
proof -
  have h1: "(0::int) \<le> 5000" by simp
  have h2: "0 \<le> platformFeePercent default_config" by (simp add: default_config_def)
  have h3: "platformFeePercent default_config \<le> 100" by (simp add: default_config_def)
  have h4: "\<forall>p\<in>set [provider_A, provider_B]. 0 \<le> sharePercent p \<and> sharePercent p \<le> 100"
    by (simp add: provider_A_def provider_B_def)
  have h5: "sum_list (map sharePercent [provider_A, provider_B]) \<le> 100"
    by (simp add: provider_A_def provider_B_def)
  show ?thesis
    using distribution_sum_bounded [OF h1 h2 h3 h4 h5, where sendSTX = transfers_succeed
        and clock = fixed_clock and lid = 1 and w = 0 and es = scenario_ledger] h1 h2 h3 h4 h5
    by (simp add: split_beta Let_def)
qed

text \<open>
  Without the bound on the sum of the share percents the claim fails: with two
  recipients at 100 percent each, both within 0 to 100, the code pays and records the
  whole distributable amount twice, 6000 against a distributable amount of 3000.
\<close>

theorem distribution_sum_counterexample:
  "0 \<le> sharePercent provider_A_full \<and> sharePercent provider_A_full \<le> 100
   \<and> 0 \<le> sharePercent provider_B_full \<and> sharePercent provider_B_full \<le> 100
   \<and> distributable default_config 5000 = 3000
   \<and> map distribution_summary
        (recorded 1 (snd (snd (distributeRevenue transfers_succeed fixed_clock default_config 1
           5000 [provider_A_full, provider_B_full] 0 scenario_ledger)))) =
      [(''A'', ''ST-A'', 3000), (''B'', ''ST-B'', 3000)]
   \<and> sum_list (map d_amount
        (recorded 1 (snd (snd (distributeRevenue transfers_succeed fixed_clock default_config 1
           5000 [provider_A_full, provider_B_full] 0 scenario_ledger))))) = 6000
   \<and> \<not> (6000::int) \<le> distributable default_config 5000"
  by (simp add: platformFee_def distributable_def default_config_def bigint_div_def
        signed_divide_int_def distributeRevenue_def providerAmount_def provider_A_full_def
        provider_B_full_def transfers_succeed_def fixed_clock_def scenario_ledger_def
        recordIncomingPayment_def recorded_def distribution_summary_def Let_def)

section \<open>Properties of the payment gate\<close>

lemma direct_txid_proof_next:
  "\<exists>logs p. direct_txid_proof cfg fetch opts t = (logs, Next p) \<and> \<not> yieldPowered p
     \<and> x_txid p = t \<and> x_amount p = price opts \<and> x_asset p = asset opts"
  by (simp add: direct_txid_proof_def direct_payment_def Let_def
        split: fetch_outcome.splits json_body.splits)

lemma direct_txid_proof_not_yield:
  "direct_txid_proof cfg fetch opts t = (logs, Next p) \<Longrightarrow> \<not> yieldPowered p"
  using direct_txid_proof_next [of cfg fetch opts t] by auto

text \<open>
  C5, as the code has it. A request with an \<open>x-payment-txid\<close> header is never
  rejected: the middleware calls \<open>next()\<close> with a payment attached. When no yield header
  takes precedence, the payment carries the txid, the price, the asset and the explorer
  URL, and the lookup decides the payer and the log line. A response that is \<open>ok\<close> with
  a transaction record is logged as verified on-chain and the payer is the record's
  \<open>sender_address\<close>, or \<open>"unknown"\<close> when the record has none. A response that is not
  \<open>ok\<close> is logged as not found yet and accepted with payer \<open>"pending"\<close>. A lookup that
  throws (network error, unreadable or null body) is logged as not verifiable and
  accepted with payer \<open>"unverified"\<close>. The payment has no field that says whether it was
  verified.
\<close>

theorem direct_txid_always_accepted:
  assumes "nonempty (headers req ''x-payment-txid'') = Some directTxid"
  shows
    "(\<exists>logs p. paymentGate cfg fetch opts req = (logs, Next p))
   \<and> (nonempty (headers req ''x-yield-payment'') = None \<longrightarrow>
        (\<forall>tx_status sender.
            fetch (verifyUrl cfg directTxid) = Response True (TxData tx_status (Some sender))
            \<and> sender \<noteq> [] \<longrightarrow>
            paymentGate cfg fetch opts req =
              ([(Info, ''x402'', ''Direct txid proof received: '' @ directTxid),
                (Success, ''x402'', ''Payment verified on-chain! Status: '' @ tx_status)],
               Next \<lparr>x_txid = directTxid, x_amount = price opts, x_asset = asset opts,
                     payer = sender,
                     x_explorerUrl = Some (''https://explorer.hiro.so/txid/'' @ directTxid
                                             @ ''?chain='' @ stacksNetwork cfg),
                     yieldPowered = False\<rparr>))
      \<and> (\<forall>tx_status sender.
            fetch (verifyUrl cfg directTxid) = Response True (TxData tx_status sender)
            \<and> nonempty sender = None \<longrightarrow>
            paymentGate cfg fetch opts req =
              ([(Info, ''x402'', ''Direct txid proof received: '' @ directTxid),
                (Success, ''x402'', ''Payment verified on-chain! Status: '' @ tx_status)],
               Next \<lparr>x_txid = directTxid, x_amount = price opts, x_asset = asset opts,
                     payer = ''unknown'',
                     x_explorerUrl = Some (''https://explorer.hiro.so/txid/'' @ directTxid
                                             @ ''?chain='' @ stacksNetwork cfg),
                     yieldPowered = False\<rparr>))
      \<and> (\<forall>body.
            fetch (verifyUrl cfg directTxid) = Response False body \<longrightarrow>
            paymentGate cfg fetch opts req =
              ([(Info, ''x402'', ''Direct txid proof received: '' @ directTxid),
                (Warn, ''x402'', ''Txid '' @ directTxid
                   @ '' not found yet (may be pending). Accepting anyway.'')],
               Next \<lparr>x_txid = directTxid, x_amount = price opts, x_asset = asset opts,
                     payer = ''pending'',
                     x_explorerUrl = Some (''https://explorer.hiro.so/txid/'' @ directTxid
                                             @ ''?chain='' @ stacksNetwork cfg),
                     yieldPowered = False\<rparr>))
      \<and> (\<forall>msg.
            fetch (verifyUrl cfg directTxid) = FetchThrew msg
            \<or> fetch (verifyUrl cfg directTxid) = Response True (JsonThrew msg) \<longrightarrow>
            paymentGate cfg fetch opts req =
              ([(Info, ''x402'', ''Direct txid proof received: '' @ directTxid),
                (Warn, ''x402'', ''Could not verify txid: '' @ msg @ ''. Accepting anyway.'')],
               Next \<lparr>x_txid = directTxid, x_amount = price opts, x_asset = asset opts,
                     payer = ''unverified'',
                     x_explorerUrl = Some (''https://explorer.hiro.so/txid/'' @ directTxid
                                             @ ''?chain='' @ stacksNetwork cfg),
                     yieldPowered = False\<rparr>))
      \<and> (fetch (verifyUrl cfg directTxid) = Response True JsonNull \<longrightarrow>
            snd (paymentGate cfg fetch opts req) =
               Next \<lparr>x_txid = directTxid, x_amount = price opts, x_asset = asset opts,
                     payer = ''unverified'',
                     x_explorerUrl = Some (''https://explorer.hiro.so/txid/'' @ directTxid
                                             @ ''?chain='' @ stacksNetwork cfg),
                     yieldPowered = False\<rparr>))"
proof -
  have acc: "\<exists>logs p. paymentGate cfg fetch opts req = (logs, Next p)"
    using assms direct_txid_proof_next [of cfg fetch opts directTxid]
    by (cases "nonempty (headers req ''x-yield-payment'')") (auto simp: paymentGate_def)
  have direct: "paymentGate cfg fetch opts req = direct_txid_proof cfg fetch opts directTxid"
    if "nonempty (headers req ''x-yield-payment'') = None"
    using assms that by (simp add: paymentGate_def)
  show ?thesis
  proof (intro conjI impI allI)
    show "\<exists>logs p. paymentGate cfg fetch opts req = (logs, Next p)"
      by (rule acc)
  next
    fix tx_status sender
    assume y: "nonempty (headers req ''x-yield-payment'') = None"
      and f: "fetch (verifyUrl cfg directTxid) = Response True (TxData tx_status (Some sender))
            \<and> sender \<noteq> []"
    show "paymentGate cfg fetch opts req =
              ([(Info, ''x402'', ''Direct txid proof received: '' @ directTxid),
                (Success, ''x402'', ''Payment verified on-chain! Status: '' @ tx_status)],
               Next \<lparr>x_txid = directTxid, x_amount = price opts, x_asset = asset opts,
                     payer = sender,
                     x_explorerUrl = Some (''https://explorer.hiro.so/txid/'' @ directTxid
                                             @ ''?chain='' @ stacksNetwork cfg),
                     yieldPowered = False\<rparr>)"
      unfolding direct [OF y] using f
      by (simp add: direct_txid_proof_def direct_payment_def explorerUrl_def Let_def)
  next
    fix tx_status sender
    assume y: "nonempty (headers req ''x-yield-payment'') = None"
      and f: "fetch (verifyUrl cfg directTxid) = Response True (TxData tx_status sender)
            \<and> nonempty sender = None"
    show "paymentGate cfg fetch opts req =
              ([(Info, ''x402'', ''Direct txid proof received: '' @ directTxid),
                (Success, ''x402'', ''Payment verified on-chain! Status: '' @ tx_status)],
               Next \<lparr>x_txid = directTxid, x_amount = price opts, x_asset = asset opts,
                     payer = ''unknown'',
                     x_explorerUrl = Some (''https://explorer.hiro.so/txid/'' @ directTxid
                                             @ ''?chain='' @ stacksNetwork cfg),
                     yieldPowered = False\<rparr>)"
      unfolding direct [OF y] using f
      by (simp add: direct_txid_proof_def direct_payment_def explorerUrl_def Let_def)
  next
    fix body
    assume y: "nonempty (headers req ''x-yield-payment'') = None"
      and f: "fetch (verifyUrl cfg directTxid) = Response False body"
    show "paymentGate cfg fetch opts req =
              ([(Info, ''x402'', ''Direct txid proof received: '' @ directTxid),
                (Warn, ''x402'', ''Txid '' @ directTxid
                   @ '' not found yet (may be pending). Accepting anyway.'')],
               Next \<lparr>x_txid = directTxid, x_amount = price opts, x_asset = asset opts,
                     payer = ''pending'',
                     x_explorerUrl = Some (''https://explorer.hiro.so/txid/'' @ directTxid
                                             @ ''?chain='' @ stacksNetwork cfg),
                     yieldPowered = False\<rparr>)"
      unfolding direct [OF y] using f
      by (simp add: direct_txid_proof_def direct_payment_def explorerUrl_def Let_def)
  next
    fix msg
    assume y: "nonempty (headers req ''x-yield-payment'') = None"
      and f: "fetch (verifyUrl cfg directTxid) = FetchThrew msg
            \<or> fetch (verifyUrl cfg directTxid) = Response True (JsonThrew msg)"
    show "paymentGate cfg fetch opts req =
              ([(Info, ''x402'', ''Direct txid proof received: '' @ directTxid),
                (Warn, ''x402'', ''Could not verify txid: '' @ msg @ ''. Accepting anyway.'')],
               Next \<lparr>x_txid = directTxid, x_amount = price opts, x_asset = asset opts,
                     payer = ''unverified'',
                     x_explorerUrl = Some (''https://explorer.hiro.so/txid/'' @ directTxid
                                             @ ''?chain='' @ stacksNetwork cfg),
                     yieldPowered = False\<rparr>)"
      unfolding direct [OF y] using f
      by (auto simp: direct_txid_proof_def direct_payment_def explorerUrl_def Let_def)
  next
    assume y: "nonempty (headers req ''x-yield-payment'') = None"
      and f: "fetch (verifyUrl cfg directTxid) = Response True JsonNull"
    show "snd (paymentGate cfg fetch opts req) =
               Next \<lparr>x_txid = directTxid, x_amount = price opts, x_asset = asset opts,
                     payer = ''unverified'',
                     x_explorerUrl = Some (''https://explorer.hiro.so/txid/'' @ directTxid
                                             @ ''?chain='' @ stacksNetwork cfg),
                     yieldPowered = False\<rparr>"
      unfolding direct [OF y] using f
      by (simp add: direct_txid_proof_def direct_payment_def explorerUrl_def Let_def)
  qed
qed

theorem direct_txid_always_accepted_witness:
  "nonempty (headers direct_request ''x-payment-txid'') = Some ''0xabc''
   \<and> nonempty (headers direct_request ''x-yield-payment'') = None
   \<and> lookup_found (verifyUrl default_config ''0xabc'') =
        Response True (TxData ''success'' (Some ''ST1SENDER''))
   \<and> snd (paymentGate default_config lookup_found wallet_auditor_gate direct_request) =
        Next \<lparr>x_txid = ''0xabc'', x_amount = 5000, x_asset = ''STX'', payer = ''ST1SENDER'',
              x_explorerUrl = Some ''https://explorer.hiro.so/txid/0xabc?chain=testnet'',
              yieldPowered = False\<rparr>
   \<and> lookup_not_found (verifyUrl default_config ''0xabc'') = Response False JsonNull
   \<and> snd (paymentGate default_config lookup_not_found wallet_auditor_gate direct_request) =
        Next \<lparr>x_txid = ''0xabc'', x_amount = 5000, x_asset = ''STX'', payer = ''pending'',
              x_explorerUrl = Some ''https://explorer.hiro.so/txid/0xabc?chain=testnet'',
              yieldPowered = False\<rparr>
   \<and> lookup_unreachable (verifyUrl default_config ''0xabc'') = FetchThrew ''fetch failed''
   \<and> snd (paymentGate default_config lookup_unreachable wallet_auditor_gate direct_request) =
        Next \<lparr>x_txid = ''0xabc'', x_amount = 5000, x_asset = ''STX'', payer = ''unverified'',
              x_explorerUrl = Some ''https://explorer.hiro.so/txid/0xabc?chain=testnet'',
              yieldPowered = False\<rparr>"
proof -
  have h: "nonempty (headers direct_request ''x-payment-txid'') = Some ''0xabc''"
    by (simp add: direct_request_def)
  have y: "nonempty (headers direct_request ''x-yield-payment'') = None"
    by (simp add: direct_request_def)
  have f1: "lookup_found (verifyUrl default_config ''0xabc'') =
      Response True (TxData ''success'' (Some ''ST1SENDER''))"
    by (simp add: lookup_found_def)
  have f2: "lookup_not_found (verifyUrl default_config ''0xabc'') = Response False JsonNull"
    by (simp add: lookup_not_found_def)
  have f3: "lookup_unreachable (verifyUrl default_config ''0xabc'') = FetchThrew ''fetch failed''"
    by (simp add: lookup_unreachable_def)
  show ?thesis
    using direct_txid_always_accepted [OF h, of default_config lookup_found wallet_auditor_gate]
      direct_txid_always_accepted [OF h, of default_config lookup_not_found wallet_auditor_gate]
      direct_txid_always_accepted [OF h, of default_config lookup_unreachable wallet_auditor_gate]
      h y f1 f2 f3
    by (simp add: wallet_auditor_gate_def default_config_def)
qed

text \<open>
  The claim as first stated fails: the payment does not tell a verified proof from an
  unverified one. A lookup that finds a transaction whose sender is the string
  \<open>"pending"\<close> and a lookup that finds nothing attach the same payment, so nothing read
  from the payment is true of the first and false of the second. And a lookup that
  finds a record without sender attaches the payer \<open>"unknown"\<close>, which is not taken
  from the record.
\<close>

theorem direct_txid_counterexample:
  "snd (paymentGate default_config lookup_found_pending wallet_auditor_gate direct_request) =
     Next \<lparr>x_txid = ''0xabc'', x_amount = 5000, x_asset = ''STX'', payer = ''pending'',
           x_explorerUrl = Some ''https://explorer.hiro.so/txid/0xabc?chain=testnet'',
           yieldPowered = False\<rparr>
   \<and> snd (paymentGate default_config lookup_not_found wallet_auditor_gate direct_request) =
     Next \<lparr>x_txid = ''0xabc'', x_amount = 5000, x_asset = ''STX'', payer = ''pending'',
           x_explorerUrl = Some ''https://explorer.hiro.so/txid/0xabc?chain=testnet'',
           yieldPowered = False\<rparr>
   \<and> \<not> (\<exists>verified.
          verified (snd (paymentGate default_config lookup_found_pending wallet_auditor_gate
                           direct_request))
          \<and> \<not> verified (snd (paymentGate default_config lookup_not_found wallet_auditor_gate
                               direct_request)))
   \<and> snd (paymentGate default_config lookup_found_no_sender wallet_auditor_gate direct_request) =
     Next \<lparr>x_txid = ''0xabc'', x_amount = 5000, x_asset = ''STX'', payer = ''unknown'',
           x_explorerUrl = Some ''https://explorer.hiro.so/txid/0xabc?chain=testnet'',
           yieldPowered = False\<rparr>"
  by (simp add: paymentGate_def direct_txid_proof_def direct_payment_def explorerUrl_def
        direct_request_def wallet_auditor_gate_def default_config_def lookup_found_pending_def
        lookup_not_found_def lookup_found_no_sender_def Let_def)

text \<open>
  C4, as the code has it. The middleware accepts a request as yield-powered exactly
  when its \<open>x-yield-payment\<close> header is present and not empty: it logs the acceptance
  and calls \<open>next()\<close> with payer \<open>"yield-engine"\<close>, asset \<open>"sBTC-yield"\<close>, the price as
  amount and the header as txid. It does not consult the yield account: handling the
  request leaves the balance as it was (no second debit), whatever happened before.
\<close>

theorem yield_header_accepted:
  "((\<exists>logs p. paymentGate cfg fetch opts req = (logs, Next p) \<and> yieldPowered p)
      = (nonempty (headers req ''x-yield-payment'') \<noteq> None))
   \<and> (\<forall>yieldPayment. nonempty (headers req ''x-yield-payment'') = Some yieldPayment \<longrightarrow>
         paymentGate cfg fetch opts req =
           ([(Success, ''x402'', ''[YIELD_ENGINE] Yield payment accepted: '' @ yieldPayment)],
            Next \<lparr>x_txid = yieldPayment, x_amount = price opts, x_asset = ''sBTC-yield'',
                  payer = ''yield-engine'', x_explorerUrl = None, yieldPowered = True\<rparr>))
   \<and> api_step cfg fetch (SkillExecute opts req) simulatedYield =
         (GateReply (snd (paymentGate cfg fetch opts req)), simulatedYield)"
proof -
  have a: "(\<exists>logs p. paymentGate cfg fetch opts req = (logs, Next p) \<and> yieldPowered p)
      = (nonempty (headers req ''x-yield-payment'') \<noteq> None)"
  proof (cases "nonempty (headers req ''x-yield-payment'')")
    case (Some y)
    then show ?thesis by (simp add: paymentGate_def)
  next
    case None
    have "\<not> (\<exists>logs p. paymentGate cfg fetch opts req = (logs, Next p) \<and> yieldPowered p)"
    proof (cases "nonempty (headers req ''x-payment-txid'')")
      case (Some t)
      with None show ?thesis
        using direct_txid_proof_not_yield [of cfg fetch opts t]
        by (auto simp: paymentGate_def)
    next
      case n: None
      with None show ?thesis
        by (auto simp: paymentGate_def Let_def split: option.splits if_splits)
    qed
    with None show ?thesis by simp
  qed
  have b: "\<forall>yieldPayment. nonempty (headers req ''x-yield-payment'') = Some yieldPayment \<longrightarrow>
         paymentGate cfg fetch opts req =
           ([(Success, ''x402'', ''[YIELD_ENGINE] Yield payment accepted: '' @ yieldPayment)],
            Next \<lparr>x_txid = yieldPayment, x_amount = price opts, x_asset = ''sBTC-yield'',
                  payer = ''yield-engine'', x_explorerUrl = None, yieldPowered = True\<rparr>)"
    by (simp add: paymentGate_def)
  have c: "api_step cfg fetch (SkillExecute opts req) simulatedYield =
         (GateReply (snd (paymentGate cfg fetch opts req)), simulatedYield)"
    by simp
  from a b c show ?thesis by (intro conjI)
qed

theorem yield_header_accepted_witness:
  "nonempty (headers yield_request ''x-yield-payment'') = Some ''yield-payment-1''
   \<and> snd (paymentGate default_config lookup_unreachable wallet_auditor_gate yield_request) =
        Next \<lparr>x_txid = ''yield-payment-1'', x_amount = 5000, x_asset = ''sBTC-yield'',
              payer = ''yield-engine'', x_explorerUrl = None, yieldPowered = True\<rparr>"
proof -
  have h: "nonempty (headers yield_request ''x-yield-payment'') = Some ''yield-payment-1''"
    by (simp add: yield_request_def)
  show ?thesis
    using yield_header_accepted [of default_config lookup_unreachable wallet_auditor_gate
        yield_request "Finite 1420"] h
    by (simp add: wallet_auditor_gate_def)
qed

text \<open>
  The claim as first stated fails: no debit is needed. On a fresh process a debit of
  2000 is refused (the balance is 1420), and the request that follows with an
  \<open>x-yield-payment\<close> header is accepted all the same; no reply of the run reports a
  debit.
\<close>

theorem yield_proof_without_debit_counterexample:
  "api_run default_config lookup_unreachable
     [YieldSpend (Finite 2000), SkillExecute wallet_auditor_gate yield_request]
     initialSimulatedYield =
     ([SpendReply \<lparr>success = False, remaining = Finite 1420, needed = Some (Finite 2000)\<rparr>,
       GateReply (Next \<lparr>x_txid = ''yield-payment-1'', x_amount = 5000, x_asset = ''sBTC-yield'',
                        payer = ''yield-engine'', x_explorerUrl = None, yieldPowered = True\<rparr>)],
      Finite 1420)
   \<and> \<not> list_ex is_debit
         (fst (api_run default_config lookup_unreachable
            [YieldSpend (Finite 2000), SkillExecute wallet_auditor_gate yield_request]
            initialSimulatedYield))"
  by (simp add: initialSimulatedYield_def spendSimulatedYield_def js_le_def paymentGate_def
        yield_request_def wallet_auditor_gate_def)

section \<open>Properties of the bounty board\<close>

lemma find_replace_bounty:
  "b_id b' = bountyId \<Longrightarrow> find (\<lambda>b. b_id b = bountyId) bs = Some b \<Longrightarrow>
     find (\<lambda>b. b_id b = bountyId) (replace_bounty bountyId b' bs) = Some b'"
  by (induction bs) (auto split: if_splits)

lemma find_replace_other:
  "b_id b' = other \<Longrightarrow> other \<noteq> bountyId \<Longrightarrow>
     find (\<lambda>b. b_id b = bountyId) (replace_bounty other b' bs) =
     find (\<lambda>b. b_id b = bountyId) bs"
  by (induction bs) auto

lemma find_append_some:
  "find P xs = Some x \<Longrightarrow> find P (xs @ ys) = Some x"
  by (induction xs) (auto split: if_splits)

lemma find_some_id: "find (\<lambda>b. b_id b = bountyId) bs = Some b \<Longrightarrow> b_id b = bountyId"
  by (induction bs) (auto split: if_splits)

lemma find_some_mem: "find P xs = Some x \<Longrightarrow> x \<in> set xs"
  by (induction xs) (auto split: if_splits)

lemma submit_other:
  "other \<noteq> bountyId \<Longrightarrow>
     getBounty bountyId (snd (submitBountyWork other who res now bs)) = getBounty bountyId bs"
  by (auto simp: submitBountyWork_def getBounty_def Let_def find_replace_other
        dest: find_some_id split: option.splits)

lemma apply_update_same:
  "b_id (apply_update upd now b) = b_id b"
  "status (apply_update upd now b) = status b"
  "submissions (apply_update upd now b) = submissions b"
  "postedBy (apply_update upd now b) = postedBy b"
  by (simp_all add: apply_update_def Let_def)

lemma update_other:
  "other \<noteq> bountyId \<Longrightarrow>
     getBounty bountyId (snd (updateBounty other upd now bs)) = getBounty bountyId bs"
  by (auto simp: updateBounty_def getBounty_def Let_def find_replace_other apply_update_same
        dest: find_some_id split: option.splits)

lemma closed_bounty_step:
  assumes "getBounty bountyId bs = Some b" and "status b \<noteq> ''open''"
  shows "getBounty bountyId (board_step c bs) = Some b"
proof (cases c)
  case (PostBounty ttl descr rew who now)
  then show ?thesis
    using assms by (simp add: postBounty_def getBounty_def Let_def find_append_some)
next
  case (SubmitBountyWork other who res now)
  show ?thesis
  proof (cases "other = bountyId")
    case True
    then show ?thesis
      using assms SubmitBountyWork by (simp add: submitBountyWork_def)
  next
    case False
    then show ?thesis
      using assms SubmitBountyWork by (simp add: submit_other)
  qed
next
  case (UpdateBounty other upd now)
  show ?thesis
  proof (cases "other = bountyId")
    case True
    then show ?thesis
      using assms UpdateBounty by (simp add: updateBounty_def getBounty_def)
  next
    case False
    then show ?thesis
      using assms UpdateBounty by (simp add: update_other)
  qed
qed

lemma closed_bounty_run:
  "getBounty bountyId bs = Some b \<Longrightarrow> status b \<noteq> ''open'' \<Longrightarrow>
     getBounty bountyId (board_run cs bs) = Some b"
  by (induction cs arbitrary: bs) (simp_all add: closed_bounty_step)

lemma replace_bounty_invariant:
  "bounty_invariant b' \<Longrightarrow> \<forall>b\<in>set bs. bounty_invariant b \<Longrightarrow>
     \<forall>b\<in>set (replace_bounty bountyId b' bs). bounty_invariant b"
  by (induction bs) auto

lemma open_not_submitted: "''open'' \<noteq> ''submitted''"
  by simp

lemma invariant_open: "bounty_invariant b \<Longrightarrow> status b = ''open'' \<Longrightarrow> submissions b = []"
  unfolding bounty_invariant_def using open_not_submitted by metis

lemma invariant_post: "bounty_invariant (fst (postBounty ttl descr rew who now bs))"
  by (simp add: postBounty_def Let_def bounty_invariant_def)

lemma invariant_submitted:
  "submissions b = [] \<Longrightarrow>
     bounty_invariant (b\<lparr>submissions := submissions b @ [s], status := ''submitted''\<rparr>)"
  by (simp add: bounty_invariant_def)

lemma invariant_updated: "bounty_invariant b \<Longrightarrow> bounty_invariant (apply_update upd now b)"
  by (simp add: bounty_invariant_def apply_update_same)

lemma invariant_step:
  assumes "\<forall>b\<in>set bs. bounty_invariant b"
  shows "\<forall>b\<in>set (board_step c bs). bounty_invariant b"
proof (cases c)
  case (PostBounty ttl descr rew who now)
  have "snd (postBounty ttl descr rew who now bs) = bs @ [fst (postBounty ttl descr rew who now bs)]"
    by (simp add: postBounty_def Let_def)
  then show ?thesis
    unfolding PostBounty using assms invariant_post [of ttl descr rew who now bs] by simp
next
  case (SubmitBountyWork bountyId who res now)
  show ?thesis
  proof (cases "getBounty bountyId bs")
    case None
    then show ?thesis
      unfolding SubmitBountyWork using assms by (simp add: submitBountyWork_def)
  next
    case (Some b)
    then have "b \<in> set bs"
      by (simp add: getBounty_def find_some_mem)
    with assms have i: "bounty_invariant b" by simp
    show ?thesis
    proof (cases "status b = ''open''")
      case False
      then show ?thesis
        unfolding SubmitBountyWork using assms Some by (simp add: submitBountyWork_def)
    next
      case True
      let ?s = "\<lparr>submittedBy = who, result = res, submittedAt = now\<rparr>"
      let ?b = "b\<lparr>submissions := submissions b @ [?s], status := ''submitted''\<rparr>"
      have "bounty_invariant ?b"
        using invariant_open [OF i True] by (rule invariant_submitted)
      then have "\<forall>x\<in>set (replace_bounty bountyId ?b bs). bounty_invariant x"
        using assms by (rule replace_bounty_invariant)
      moreover have "board_step c bs = replace_bounty bountyId ?b bs"
        unfolding SubmitBountyWork using Some True by (simp add: submitBountyWork_def Let_def)
      ultimately show ?thesis by simp
    qed
  qed
next
  case (UpdateBounty bountyId upd now)
  show ?thesis
  proof (cases "find (\<lambda>b. b_id b = bountyId) bs")
    case None
    then show ?thesis
      unfolding UpdateBounty using assms by (simp add: updateBounty_def)
  next
    case (Some b)
    then have "b \<in> set bs"
      by (simp add: find_some_mem)
    with assms have i: "bounty_invariant b" by simp
    have "bounty_invariant (apply_update upd now b)"
      using i by (rule invariant_updated)
    then have r: "\<forall>x\<in>set (replace_bounty bountyId (apply_update upd now b) bs). bounty_invariant x"
      using assms by (rule replace_bounty_invariant)
    have "board_step c bs = bs \<or> board_step c bs = replace_bounty bountyId (apply_update upd now b) bs"
      unfolding UpdateBounty using Some by (simp add: updateBounty_def Let_def)
    then show ?thesis
      using r assms by auto
  qed
qed

lemma invariant_run:
  "\<forall>b\<in>set bs. bounty_invariant b \<Longrightarrow> \<forall>b\<in>set (board_run cs bs). bounty_invariant b"
proof (induction cs arbitrary: bs)
  case Nil
  then show ?case by simp
next
  case (Cons c cs)
  have "\<forall>b\<in>set (board_step c bs). bounty_invariant b"
    using Cons.prems by (rule invariant_step)
  then have "\<forall>b\<in>set (board_run cs (board_step c bs)). bounty_invariant b"
    by (rule Cons.IH)
  then show ?case by simp
qed

lemma decimal_1: "decimal (Suc 0) = ''1''"
  by code_simp

lemma board_open_eq:
  "board_open =
     [\<lparr>b_id = ''bounty-1'', title = Str ''Deep Audit'', description = Str ''Audit 3 whale wallets'',
       reward = Str ''5000'', postedBy = Str ''agent-a'', status = ''open'',
       postedAt = ''2026-01-01T00:00:00.000Z'', submissions = [], updatedAt = None,
       negotiationHistory = None\<rparr>]"
  by (simp add: board_open_def postBounty_def Let_def js_or_def decimal_1)

lemma board_submitted_eq:
  "board_submitted =
     [\<lparr>b_id = ''bounty-1'', title = Str ''Deep Audit'', description = Str ''Audit 3 whale wallets'',
       reward = Str ''5000'', postedBy = Str ''agent-a'', status = ''submitted'',
       postedAt = ''2026-01-01T00:00:00.000Z'',
       submissions = [\<lparr>submittedBy = Str ''agent-b'', result = Str ''report'',
                        submittedAt = ''2026-01-01T00:00:01.000Z''\<rparr>],
       updatedAt = None, negotiationHistory = None\<rparr>]"
  by (simp add: board_submitted_def board_open_eq submitBountyWork_def getBounty_def Let_def)

lemma closed_submit:
  assumes "getBounty bountyId bs = Some x" and "status x \<noteq> ''open''"
  shows "submitBountyWork bountyId who' res' now' (board_run calls bs) =
            (SubmitError ''Bounty is not open'', board_run calls bs)"
  using closed_bounty_run [OF assms, of calls] assms(2)
  by (simp add: submitBountyWork_def)

lemma open_submit:
  assumes "getBounty bountyId bounties = Some b" and "status b = ''open''"
  shows "submitBountyWork bountyId who res now bounties =
           (Submitted
              (b\<lparr>submissions := submissions b
                     @ [\<lparr>submittedBy = who, result = res, submittedAt = now\<rparr>],
                 status := ''submitted''\<rparr>)
              \<lparr>submittedBy = who, result = res, submittedAt = now\<rparr>,
            replace_bounty bountyId
              (b\<lparr>submissions := submissions b
                     @ [\<lparr>submittedBy = who, result = res, submittedAt = now\<rparr>],
                 status := ''submitted''\<rparr>) bounties)"
  using assms by (simp add: submitBountyWork_def Let_def)

lemma open_submit_get:
  assumes "getBounty bountyId bounties = Some b" and "status b = ''open''"
  shows "getBounty bountyId (snd (submitBountyWork bountyId who res now bounties)) =
           Some (b\<lparr>submissions := submissions b
                     @ [\<lparr>submittedBy = who, result = res, submittedAt = now\<rparr>],
                 status := ''submitted''\<rparr>)"
proof -
  have f: "find (\<lambda>b. b_id b = bountyId) bounties = Some b"
    using assms(1) by (simp add: getBounty_def)
  have "b_id (b\<lparr>submissions := submissions b
                     @ [\<lparr>submittedBy = who, result = res, submittedAt = now\<rparr>],
                 status := ''submitted''\<rparr>) = bountyId"
    using find_some_id [OF f] by simp
  then show ?thesis
    unfolding open_submit [OF assms] getBounty_def snd_conv
    using f by (rule find_replace_bounty)
qed

lemma reachable_invariant:
  "\<forall>x\<in>set (board_run calls []).
         status x = ''open'' \<and> submissions x = []
         \<or> status x = ''submitted'' \<and> length (submissions x) = 1"
  using invariant_run [of "[]" calls] unfolding bounty_invariant_def by simp

text \<open>
  C7, as the code has it. When \<open>postedBy\<close> of the update is a non-empty string (or
  a non-zero number) that differs from the poster of the bounty, \<open>updateBounty\<close> returns
  an error and leaves the whole board, and so the bounty's reward, description,
  negotiationHistory and updatedAt, as it was. The error is the authorization error
  \<open>"Only the bounty poster can update the reward"\<close> when the bounty is open; when it is
  not open the status check comes first and the error is \<open>"Bounty is not open"\<close>.
\<close>

theorem update_by_other_poster_rejected:
  assumes "find (\<lambda>b. b_id b = bountyId) bounties = Some b"
    and "truthy (u_postedBy upd)" and "u_postedBy upd \<noteq> postedBy b"
  shows "updateBounty bountyId upd now bounties =
           (UpdateError (if status b = ''open''
                         then ''Only the bounty poster can update the reward''
                         else ''Bounty is not open''),
            bounties)"
  using assms by (simp add: updateBounty_def)

theorem update_by_other_poster_rejected_witness:
  "find (\<lambda>b. b_id b = ''bounty-1'') board_open = Some (hd board_open)
   \<and> truthy (Str ''agent-b'') \<and> Str ''agent-b'' \<noteq> postedBy (hd board_open)
   \<and> status (hd board_open) = ''open''
   \<and> updateBounty ''bounty-1''
        \<lparr>u_reward = Str ''8000'', u_description = Undefined, u_postedBy = Str ''agent-b''\<rparr>
        ''2026-01-01T00:00:02.000Z'' board_open =
      (UpdateError ''Only the bounty poster can update the reward'', board_open)"
proof -
  let ?upd = "\<lparr>u_reward = Str ''8000'', u_description = Undefined, u_postedBy = Str ''agent-b''\<rparr>"
  have h1: "find (\<lambda>b. b_id b = ''bounty-1'') board_open = Some (hd board_open)"
    by (simp add: board_open_eq)
  have h2: "truthy (u_postedBy ?upd)" by simp
  have h3: "u_postedBy ?upd \<noteq> postedBy (hd board_open)"
    by (simp add: board_open_eq)
  have h4: "status (hd board_open) = ''open''"
    by (simp add: board_open_eq)
  show ?thesis
    using update_by_other_poster_rejected [OF h1 h2 h3, of "''2026-01-01T00:00:02.000Z''"]
      h1 h2 h3 h4
    by simp
qed

text \<open>
  The claim as first stated fails in two places. On a submitted bounty an update by
  another agent is answered with \<open>"Bounty is not open"\<close>, not with the authorization
  error. And an update whose \<open>postedBy\<close> is the empty string, which differs from the
  poster \<open>"agent-a"\<close>, is treated as one without \<open>postedBy\<close>: it is applied and the
  reward changes.
\<close>

theorem update_by_other_poster_counterexample:
  "fst (updateBounty ''bounty-1''
          \<lparr>u_reward = Str ''8000'', u_description = Undefined, u_postedBy = Str ''agent-b''\<rparr>
          ''2026-01-01T00:00:02.000Z'' board_submitted) = UpdateError ''Bounty is not open''
   \<and> map postedBy board_open = [Str ''agent-a'']
   \<and> map reward board_open = [Str ''5000'']
   \<and> map reward (snd (updateBounty ''bounty-1''
          \<lparr>u_reward = Str ''1'', u_description = Undefined, u_postedBy = Str []\<rparr>
          ''2026-01-01T00:00:02.000Z'' board_open)) = [Str ''1'']"
  by (simp add: board_submitted_eq board_open_eq updateBounty_def apply_update_def Let_def
        js_or_def)

text \<open>
  C8. For a bounty that \<open>getBounty\<close> finds: while its status is \<open>"open"\<close>,
  \<open>submitBountyWork\<close> appends the submission, sets the status to \<open>"submitted"\<close> and
  returns the bounty and the submission, and after that every further submission to
  it, after any sequence of calls on the board, is answered with \<open>"Bounty is not open"\<close>
  and changes nothing. When its status is not \<open>"open"\<close> the call returns
  \<open>"Bounty is not open"\<close> and leaves the board unchanged, now and after any sequence of
  calls. On every board reached from the empty one, each bounty is open without a
  submission or submitted with exactly one: the step from open to submitted is taken
  at most once.
\<close>

theorem submit_only_while_open:
  assumes "getBounty bountyId bounties = Some b"
  shows
    "(status b = ''open'' \<longrightarrow>
        submitBountyWork bountyId who res now bounties =
          (Submitted
             (b\<lparr>submissions := submissions b
                    @ [\<lparr>submittedBy = who, result = res, submittedAt = now\<rparr>],
                status := ''submitted''\<rparr>)
             \<lparr>submittedBy = who, result = res, submittedAt = now\<rparr>,
           replace_bounty bountyId
             (b\<lparr>submissions := submissions b
                    @ [\<lparr>submittedBy = who, result = res, submittedAt = now\<rparr>],
                status := ''submitted''\<rparr>) bounties)
      \<and> getBounty bountyId (snd (submitBountyWork bountyId who res now bounties)) =
          Some (b\<lparr>submissions := submissions b
                    @ [\<lparr>submittedBy = who, result = res, submittedAt = now\<rparr>],
                status := ''submitted''\<rparr>)
      \<and> (\<forall>calls who' res' now'.
            submitBountyWork bountyId who' res' now'
              (board_run calls (snd (submitBountyWork bountyId who res now bounties))) =
            (SubmitError ''Bounty is not open'',
             board_run calls (snd (submitBountyWork bountyId who res now bounties)))))
   \<and> (status b \<noteq> ''open'' \<longrightarrow>
        submitBountyWork bountyId who res now bounties =
          (SubmitError ''Bounty is not open'', bounties)
      \<and> (\<forall>calls who' res' now'.
            submitBountyWork bountyId who' res' now' (board_run calls bounties) =
            (SubmitError ''Bounty is not open'', board_run calls bounties)))
   \<and> (\<forall>calls. \<forall>x\<in>set (board_run calls []).
         status x = ''open'' \<and> submissions x = []
         \<or> status x = ''submitted'' \<and> length (submissions x) = 1)"
proof (intro conjI impI allI)
  assume o: "status b = ''open''"
  show "submitBountyWork bountyId who res now bounties =
          (Submitted
             (b\<lparr>submissions := submissions b
                    @ [\<lparr>submittedBy = who, result = res, submittedAt = now\<rparr>],
                status := ''submitted''\<rparr>)
             \<lparr>submittedBy = who, result = res, submittedAt = now\<rparr>,
           replace_bounty bountyId
             (b\<lparr>submissions := submissions b
                    @ [\<lparr>submittedBy = who, result = res, submittedAt = now\<rparr>],
                status := ''submitted''\<rparr>) bounties)"
    using assms o by (rule open_submit)
next
  assume o: "status b = ''open''"
  show "getBounty bountyId (snd (submitBountyWork bountyId who res now bounties)) =
          Some (b\<lparr>submissions := submissions b
                    @ [\<lparr>submittedBy = who, result = res, submittedAt = now\<rparr>],
                status := ''submitted''\<rparr>)"
    using assms o by (rule open_submit_get)
next
  fix calls who' res' now'
  assume o: "status b = ''open''"
  have "status (b\<lparr>submissions := submissions b
                    @ [\<lparr>submittedBy = who, result = res, submittedAt = now\<rparr>],
                status := ''submitted''\<rparr>) \<noteq> ''open''"
    by simp
  with open_submit_get [OF assms o]
  show "submitBountyWork bountyId who' res' now'
              (board_run calls (snd (submitBountyWork bountyId who res now bounties))) =
            (SubmitError ''Bounty is not open'',
             board_run calls (snd (submitBountyWork bountyId who res now bounties)))"
    by (rule closed_submit)
next
  assume n: "status b \<noteq> ''open''"
  show "submitBountyWork bountyId who res now bounties =
          (SubmitError ''Bounty is not open'', bounties)"
    using closed_submit [OF assms n, of who res now "[]"] by simp
next
  fix calls who' res' now'
  assume n: "status b \<noteq> ''open''"
  show "submitBountyWork bountyId who' res' now' (board_run calls bounties) =
            (SubmitError ''Bounty is not open'', board_run calls bounties)"
    using assms n by (rule closed_submit)
next
  fix calls
  show "\<forall>x\<in>set (board_run calls []).
         status x = ''open'' \<and> submissions x = []
         \<or> status x = ''submitted'' \<and> length (submissions x) = 1"
    by (rule reachable_invariant)
qed

theorem submit_only_while_open_witness:
  "getBounty ''bounty-1'' board_open = Some (hd board_open)
   \<and> status (hd board_open) = ''open''
   \<and> snd (submitBountyWork ''bounty-1'' (Str ''agent-b'') (Str ''report'')
        ''2026-01-01T00:00:01.000Z'' board_open) = board_submitted
   \<and> submitBountyWork ''bounty-1'' (Str ''agent-c'') (Str ''late'')
        ''2026-01-01T00:00:05.000Z'' board_submitted =
      (SubmitError ''Bounty is not open'', board_submitted)
   \<and> map status board_submitted = [''submitted'']
   \<and> map (\<lambda>b. length (submissions b)) board_submitted = [1]"
proof -
  have h: "getBounty ''bounty-1'' board_open = Some (hd board_open)"
    by (simp add: board_open_eq getBounty_def)
  have o: "status (hd board_open) = ''open''"
    by (simp add: board_open_eq)
  note t = submit_only_while_open [OF h, of "Str ''agent-b''" "Str ''report''"
      "''2026-01-01T00:00:01.000Z''"]
  note t1 = t [THEN conjunct1, THEN mp, OF o]
  note t2 = t1 [THEN conjunct2, THEN conjunct2, rule_format]
  have "submitBountyWork ''bounty-1'' (Str ''agent-c'') (Str ''late'')
        ''2026-01-01T00:00:05.000Z'' (board_run [] board_submitted) =
      (SubmitError ''Bounty is not open'', board_run [] board_submitted)"
    unfolding board_submitted_def by (rule t2)
  then show ?thesis
    using h o board_submitted_eq by (simp add: board_submitted_def)
qed

end
